theory Spec2Isabelle
  imports Main
begin

section \<open>Role config group endpoints of the cluster-management client\<close>

text \<open>
  A shallow embedding of \<^verbatim>\<open>cm_api/endpoints/role_config_groups.py\<close>. The module builds
  resource paths, serialises request bodies, calls an injected transport
  (\<^verbatim>\<open>resource_root\<close>) and decodes the parsed response. Exceptions are values of the
  type \<open>error\<close>; every function that can raise returns \<open>error + 'a\<close>. A transport
  call may change the remote side, so the transport's methods take and return a state.
\<close>

subsection \<open>Values: parsed JSON, exceptions, requests\<close>

text \<open>What the transport hands back: a parsed JSON-compatible structure.\<close>

datatype json =
    JNull
  | JBool bool
  | JNum int
  | JStr string
  | JArr "json list"
  | JObj "(string \<times> json) list"

text \<open>
  The exceptions that can surface. \<open>Raised\<close> stands for whatever the transport raises
  (bad status, connection failure); the others are Python's built-in exceptions.
\<close>

datatype error =
    Raised string
  | TypeError
  | ValueError
  | KeyError string
  | IndexError
  | AttributeError string

text \<open>
  The transport capability: \<^verbatim>\<open>get(path, params=None)\<close>, \<^verbatim>\<open>post(path, data=None)\<close>,
  \<^verbatim>\<open>put(path, data=None)\<close>, \<^verbatim>\<open>delete(path)\<close>. Each returns the parsed body or raises.
  \<open>'s\<close> is the state of the remote side.
\<close>

record 's resource_root =
  get :: "string \<Rightarrow> (string \<times> string) list option \<Rightarrow> 's \<Rightarrow> (error + json) \<times> 's"
  post :: "string \<Rightarrow> string option \<Rightarrow> 's \<Rightarrow> (error + json) \<times> 's"
  put :: "string \<Rightarrow> string option \<Rightarrow> 's \<Rightarrow> (error + json) \<times> 's"
  delete :: "string \<Rightarrow> 's \<Rightarrow> (error + json) \<times> 's"

subsection \<open>Python's string formatting operator\<close>

text \<open>
  \<^verbatim>\<open>template % args\<close> restricted to what the module's templates use: \<^verbatim>\<open>%s\<close> takes the
  next argument, \<^verbatim>\<open>%%\<close> is a percent sign. Too few or too many arguments raise
  \<^verbatim>\<open>TypeError\<close>; an incomplete or unsupported conversion raises \<^verbatim>\<open>ValueError\<close>. The
  arguments are strings, so \<^verbatim>\<open>%s\<close> inserts them unchanged, and they are not scanned
  for conversions themselves.
\<close>

fun percent_format :: "string \<Rightarrow> string list \<Rightarrow> error + string" where
  "percent_format [] args = (if args = [] then Inr [] else Inl TypeError)"
| "percent_format [c] args =
     (if c = CHR ''%'' then Inl ValueError
      else if args = [] then Inr [c] else Inl TypeError)"
| "percent_format (c # d # t) args =
     (if c = CHR ''%'' then
        (if d = CHR ''s'' then
           (case args of
              [] \<Rightarrow> Inl TypeError
            | a # rest \<Rightarrow>
                (case percent_format t rest of
                   Inl e \<Rightarrow> Inl e
                 | Inr out \<Rightarrow> Inr (a @ out)))
         else if d = CHR ''%'' then
           (case percent_format t args of
              Inl e \<Rightarrow> Inl e
            | Inr out \<Rightarrow> Inr (CHR ''%'' # out))
         else Inl ValueError)
      else
        (case percent_format (d # t) args of
           Inl e \<Rightarrow> Inl e
         | Inr out \<Rightarrow> Inr (c # out)))"

subsection \<open>Path resolution\<close>

definition ROLE_CONFIG_GROUPS_PATH :: string where
  "ROLE_CONFIG_GROUPS_PATH = ''/clusters/%s/services/%s/roleConfigGroups''"

definition CM_ROLE_CONFIG_GROUPS_PATH :: string where
  "CM_ROLE_CONFIG_GROUPS_PATH = ''/cm/service/roleConfigGroups''"

text \<open>
  Python's truth value of a cluster name: \<^verbatim>\<open>None\<close> and the empty string are falsy, every
  other string is truthy.
\<close>

definition truthy :: "string option \<Rightarrow> bool" where
  "truthy v = (case v of None \<Rightarrow> False | Some s \<Rightarrow> s \<noteq> [])"

text \<open>\<^verbatim>\<open>_get_role_config_groups_path(cluster_name, service_name)\<close>\<close>

definition priv_get_role_config_groups_path :: "string option \<Rightarrow> string \<Rightarrow> error + string" where
  "priv_get_role_config_groups_path cluster_name service_name =
     (if truthy cluster_name
      then percent_format ROLE_CONFIG_GROUPS_PATH [the cluster_name, service_name]
      else Inr CM_ROLE_CONFIG_GROUPS_PATH)"

text \<open>\<^verbatim>\<open>_get_role_config_group_path(cluster_name, service_name, name)\<close>\<close>

definition priv_get_role_config_group_path ::
  "string option \<Rightarrow> string \<Rightarrow> string \<Rightarrow> error + string" where
  "priv_get_role_config_group_path cluster_name service_name group_name =
     (case priv_get_role_config_groups_path cluster_name service_name of
        Inl e \<Rightarrow> Inl e
      | Inr path \<Rightarrow> percent_format ''%s/%s'' [path, group_name])"

subsection \<open>The list envelope\<close>

definition LIST_KEY :: string where
  "LIST_KEY = ''items''"

text \<open>
  Modelled from the spec: \<^verbatim>\<open>ApiList\<close> of \<^verbatim>\<open>cm_api.endpoints.types\<close>, which is not among
  the sources. A list travels as the envelope \<^verbatim>\<open>{"items": [...]}\<close>; decoding applies the
  member class's decoder to every item, in order, and the first failure is the result.
  An \<^verbatim>\<open>ApiList\<close> is modelled by the list of its objects, and indexing it is Python's
  list indexing, which raises \<^verbatim>\<open>IndexError\<close> out of range.
\<close>

fun decode_members :: "(json \<Rightarrow> error + 'a) \<Rightarrow> json list \<Rightarrow> error + 'a list" where
  "decode_members member [] = Inr []"
| "decode_members member (j # js) =
     (case member j of
        Inl e \<Rightarrow> Inl e
      | Inr x \<Rightarrow>
          (case decode_members member js of
             Inl e \<Rightarrow> Inl e
           | Inr xs \<Rightarrow> Inr (x # xs)))"

definition ApiList_from_json_dict ::
  "(json \<Rightarrow> 'rr \<Rightarrow> error + 'a) \<Rightarrow> json \<Rightarrow> 'rr \<Rightarrow> error + 'a list" where
  "ApiList_from_json_dict member_cls dic resource_root =
     (case dic of
        JObj attrs \<Rightarrow>
          (case map_of attrs LIST_KEY of
             None \<Rightarrow> Inl (KeyError LIST_KEY)
           | Some (JArr json_list) \<Rightarrow>
               decode_members (\<lambda>x. member_cls x resource_root) json_list
           | Some _ \<Rightarrow> Inl TypeError)
      | _ \<Rightarrow> Inl TypeError)"

definition ApiList_to_json_dict :: "('a \<Rightarrow> json) \<Rightarrow> 'a list \<Rightarrow> json" where
  "ApiList_to_json_dict member_to_json_dict objects =
     JObj [(LIST_KEY, JArr (map member_to_json_dict objects))]"

definition ApiList_getitem :: "'a list \<Rightarrow> nat \<Rightarrow> error + 'a" where
  "ApiList_getitem objects i =
     (if i < length objects then Inr (objects ! i) else Inl IndexError)"

subsection \<open>Configuration values\<close>

text \<open>
  Modelled from the spec: \<^verbatim>\<open>json_to_config\<close> and the config-item model of
  \<^verbatim>\<open>cm_api.endpoints.types\<close>, which are not among the sources. The response is an
  envelope of items. The decoder is a pass-through with no validation of its own: it
  walks \<^verbatim>\<open>dic['items']\<close>, reads \<^verbatim>\<open>entry['name']\<close> and stores under that name, in the
  summary mode, \<^verbatim>\<open>entry.get('value')\<close>, that is the item's value as the response carries
  it and \<^verbatim>\<open>None\<close> (here \<open>JNull\<close>) when the item has none, and in the full mode a config
  object that carries the item's attributes. The result is a dictionary, so a later
  item replaces an earlier one of the same name.
\<close>

datatype config_value =
    is_Value: Value json
  | is_ApiConfig: ApiConfig "(string \<times> json) list"

type_synonym config = "json \<rightharpoonup> config_value"

text \<open>
  What a \<^verbatim>\<open>for\<close> loop iterates over: the elements of a list, the characters of a string,
  the keys of a dictionary; anything else is not iterable.
\<close>

definition py_iter :: "json \<Rightarrow> error + json list" where
  "py_iter v =
     (case v of
        JArr xs \<Rightarrow> Inr xs
      | JStr s \<Rightarrow> Inr (map (\<lambda>c. JStr [c]) s)
      | JObj kvs \<Rightarrow> Inr (map (\<lambda>kv. JStr (fst kv)) kvs)
      | _ \<Rightarrow> Inl TypeError)"

text \<open>
  A value used as a dictionary key: lists and dictionaries are unhashable; \<^verbatim>\<open>True\<close> and
  \<^verbatim>\<open>False\<close> are the same keys as 1 and 0.
\<close>

definition dict_key :: "json \<Rightarrow> error + json" where
  "dict_key k =
     (case k of
        JArr _ \<Rightarrow> Inl TypeError
      | JObj _ \<Rightarrow> Inl TypeError
      | JBool b \<Rightarrow> Inr (JNum (if b then 1 else 0))
      | _ \<Rightarrow> Inr k)"

text \<open>\<^verbatim>\<open>entry.get('value')\<close>\<close>

definition item_value :: "(string \<times> json) list \<Rightarrow> json" where
  "item_value attrs = (case map_of attrs ''value'' of None \<Rightarrow> JNull | Some v \<Rightarrow> v)"

fun config_items :: "bool \<Rightarrow> json list \<Rightarrow> config \<Rightarrow> error + config" where
  "config_items full [] acc = Inr acc"
| "config_items full (entry # rest) acc =
     (case entry of
        JObj attrs \<Rightarrow>
          (case map_of attrs ''name'' of
             None \<Rightarrow> Inl (KeyError ''name'')
           | Some n \<Rightarrow>
               (case dict_key n of
                  Inl e \<Rightarrow> Inl e
                | Inr k \<Rightarrow>
                    (if full then config_items full rest (acc(k \<mapsto> ApiConfig attrs))
                     else config_items full rest (acc(k \<mapsto> Value (item_value attrs))))))
      | _ \<Rightarrow> Inl TypeError)"

definition json_to_config :: "json \<Rightarrow> bool \<Rightarrow> error + config" where
  "json_to_config dic full =
     (case dic of
        JObj attrs \<Rightarrow>
          (case map_of attrs LIST_KEY of
             None \<Rightarrow> Inl (KeyError LIST_KEY)
           | Some items \<Rightarrow>
               (case py_iter items of
                  Inl e \<Rightarrow> Inl e
                | Inr entries \<Rightarrow> config_items full entries Map.empty))
      | _ \<Rightarrow> Inl TypeError)"

text \<open>
  For stating what a decoded configuration holds: the items a response lists, and
  whether a decoded value is a plain string.
\<close>

definition response_entries :: "json \<Rightarrow> json list" where
  "response_entries dic =
     (case dic of
        JObj attrs \<Rightarrow>
          (case map_of attrs LIST_KEY of
             None \<Rightarrow> []
           | Some items \<Rightarrow> (case py_iter items of Inl e \<Rightarrow> [] | Inr entries \<Rightarrow> entries))
      | _ \<Rightarrow> [])"

definition is_string_value :: "config_value \<Rightarrow> bool" where
  "is_string_value v = (case v of Value (JStr x) \<Rightarrow> True | _ \<Rightarrow> False)"

definition has_string_value :: "json \<Rightarrow> bool" where
  "has_string_value entry =
     (case entry of
        JObj attrs \<Rightarrow> (case item_value attrs of JStr x \<Rightarrow> True | _ \<Rightarrow> False)
      | _ \<Rightarrow> False)"

subsection \<open>The entity\<close>

record ApiServiceRef =
  clusterName :: "string option"
  serviceName :: string

text \<open>
  \<^verbatim>\<open>ApiRoleConfigGroup\<close>: the attributes of \<^verbatim>\<open>RW_ATTR\<close> and \<^verbatim>\<open>RO_ATTR\<close>, and the
  transport the object was built with (what \<^verbatim>\<open>_get_resource_root()\<close> returns). An
  attribute that was never set is \<open>None\<close>.
\<close>

record 's ApiRoleConfigGroup =
  priv_get_resource_root :: "'s resource_root"
  name :: string
  displayName :: string
  roleType :: string
  config :: "config option"
  base :: "bool option"
  serviceRef :: "ApiServiceRef option"

text \<open>
  \<^verbatim>\<open>__init__(self, resource_root, name, displayName, roleType, config = None)\<close>: only the
  constructor's arguments are set; \<^verbatim>\<open>base\<close> and \<^verbatim>\<open>serviceRef\<close> come from the server.
\<close>

definition ApiRoleConfigGroup_init ::
  "'s resource_root \<Rightarrow> string \<Rightarrow> string \<Rightarrow> string \<Rightarrow> config option \<Rightarrow> 's ApiRoleConfigGroup" where
  "ApiRoleConfigGroup_init resource_root group_name display_name role_type cfg =
     \<lparr> priv_get_resource_root = resource_root,
       name = group_name,
       displayName = display_name,
       roleType = role_type,
       config = cfg,
       base = None,
       serviceRef = None \<rparr>"

subsection \<open>Module-level operations\<close>

text \<open>
  The operations take the helpers they import as arguments: \<open>dumps\<close> is
  \<^verbatim>\<open>json.dumps\<close>; \<open>to_json_dict\<close> and \<open>from_json_dict\<close> are the methods that
  \<^verbatim>\<open>ApiRoleConfigGroup\<close> inherits from \<^verbatim>\<open>BaseApiObject\<close>; \<open>ApiRole\<close> is the decoder of
  the role class. The default \<^verbatim>\<open>cluster_name="default"\<close> is the caller's to pass. Each
  operation maps the state of the remote side to its result and the state afterwards.
  The \<^verbatim>\<open>@return\<close> lines of the docstrings of \<^verbatim>\<open>create_role_config_groups\<close> and
  \<^verbatim>\<open>create_role_config_group\<close> are exchanged in the source; the model follows the code:
  the first returns the list, the second one group.
\<close>

definition create_role_config_groups ::
  "(json \<Rightarrow> string) \<Rightarrow> ('s ApiRoleConfigGroup \<Rightarrow> json) \<Rightarrow>
   (json \<Rightarrow> 's resource_root \<Rightarrow> error + 's ApiRoleConfigGroup) \<Rightarrow>
   's resource_root \<Rightarrow> string \<Rightarrow> 's ApiRoleConfigGroup list \<Rightarrow> string option \<Rightarrow>
   's \<Rightarrow> (error + 's ApiRoleConfigGroup list) \<times> 's" where
  "create_role_config_groups dumps to_json_dict from_json_dict
       resource_root service_name apigroup_list cluster_name s =
     (let body = dumps (ApiList_to_json_dict to_json_dict apigroup_list) in
      case priv_get_role_config_groups_path cluster_name service_name of
        Inl e \<Rightarrow> (Inl e, s)
      | Inr path \<Rightarrow>
          (case post resource_root path (Some body) s of
             (Inl e, s') \<Rightarrow> (Inl e, s')
           | (Inr resp, s') \<Rightarrow>
               (ApiList_from_json_dict from_json_dict resp resource_root, s')))"

definition create_role_config_group ::
  "(json \<Rightarrow> string) \<Rightarrow> ('s ApiRoleConfigGroup \<Rightarrow> json) \<Rightarrow>
   (json \<Rightarrow> 's resource_root \<Rightarrow> error + 's ApiRoleConfigGroup) \<Rightarrow>
   's resource_root \<Rightarrow> string \<Rightarrow> string \<Rightarrow> string \<Rightarrow> string \<Rightarrow> string option \<Rightarrow>
   's \<Rightarrow> (error + 's ApiRoleConfigGroup) \<times> 's" where
  "create_role_config_group dumps to_json_dict from_json_dict
       resource_root service_name group_name display_name role_type cluster_name s =
     (let apigroup = ApiRoleConfigGroup_init resource_root group_name display_name role_type None;
          apigroup_list = [apigroup]
      in case create_role_config_groups dumps to_json_dict from_json_dict
                resource_root service_name apigroup_list cluster_name s of
           (Inl e, s') \<Rightarrow> (Inl e, s')
         | (Inr created, s') \<Rightarrow> (ApiList_getitem created 0, s'))"

text \<open>\<^verbatim>\<open>_get_role_config_group(resource_root, path)\<close>\<close>

definition priv_get_role_config_group ::
  "(json \<Rightarrow> 's resource_root \<Rightarrow> error + 's ApiRoleConfigGroup) \<Rightarrow>
   's resource_root \<Rightarrow> string \<Rightarrow> 's \<Rightarrow> (error + 's ApiRoleConfigGroup) \<times> 's" where
  "priv_get_role_config_group from_json_dict resource_root path s =
     (case get resource_root path None s of
        (Inl e, s') \<Rightarrow> (Inl e, s')
      | (Inr dic, s') \<Rightarrow> (from_json_dict dic resource_root, s'))"

definition get_role_config_group ::
  "(json \<Rightarrow> 's resource_root \<Rightarrow> error + 's ApiRoleConfigGroup) \<Rightarrow>
   's resource_root \<Rightarrow> string \<Rightarrow> string \<Rightarrow> string option \<Rightarrow>
   's \<Rightarrow> (error + 's ApiRoleConfigGroup) \<times> 's" where
  "get_role_config_group from_json_dict resource_root service_name group_name cluster_name s =
     (case priv_get_role_config_group_path cluster_name service_name group_name of
        Inl e \<Rightarrow> (Inl e, s)
      | Inr path \<Rightarrow> priv_get_role_config_group from_json_dict resource_root path s)"

definition get_all_role_config_groups ::
  "(json \<Rightarrow> 's resource_root \<Rightarrow> error + 's ApiRoleConfigGroup) \<Rightarrow>
   's resource_root \<Rightarrow> string \<Rightarrow> string option \<Rightarrow>
   's \<Rightarrow> (error + 's ApiRoleConfigGroup list) \<times> 's" where
  "get_all_role_config_groups from_json_dict resource_root service_name cluster_name s =
     (case priv_get_role_config_groups_path cluster_name service_name of
        Inl e \<Rightarrow> (Inl e, s)
      | Inr path \<Rightarrow>
          (case get resource_root path None s of
             (Inl e, s') \<Rightarrow> (Inl e, s')
           | (Inr dic, s') \<Rightarrow>
               (ApiList_from_json_dict from_json_dict dic resource_root, s')))"

definition update_role_config_group ::
  "(json \<Rightarrow> string) \<Rightarrow> ('s ApiRoleConfigGroup \<Rightarrow> json) \<Rightarrow>
   (json \<Rightarrow> 's resource_root \<Rightarrow> error + 's ApiRoleConfigGroup) \<Rightarrow>
   's resource_root \<Rightarrow> string \<Rightarrow> string \<Rightarrow> 's ApiRoleConfigGroup \<Rightarrow> string option \<Rightarrow>
   's \<Rightarrow> (error + 's ApiRoleConfigGroup) \<times> 's" where
  "update_role_config_group dumps to_json_dict from_json_dict
       resource_root service_name group_name apigroup cluster_name s =
     (let body = dumps (to_json_dict apigroup) in
      case priv_get_role_config_group_path cluster_name service_name group_name of
        Inl e \<Rightarrow> (Inl e, s)
      | Inr path \<Rightarrow>
          (case put resource_root path (Some body) s of
             (Inl e, s') \<Rightarrow> (Inl e, s')
           | (Inr resp, s') \<Rightarrow> (from_json_dict resp resource_root, s')))"

definition delete_role_config_group ::
  "(json \<Rightarrow> 's resource_root \<Rightarrow> error + 's ApiRoleConfigGroup) \<Rightarrow>
   's resource_root \<Rightarrow> string \<Rightarrow> string \<Rightarrow> string option \<Rightarrow>
   's \<Rightarrow> (error + 's ApiRoleConfigGroup) \<times> 's" where
  "delete_role_config_group from_json_dict resource_root service_name group_name cluster_name s =
     (case priv_get_role_config_group_path cluster_name service_name group_name of
        Inl e \<Rightarrow> (Inl e, s)
      | Inr path \<Rightarrow>
          (case delete resource_root path s of
             (Inl e, s') \<Rightarrow> (Inl e, s')
           | (Inr resp, s') \<Rightarrow> (from_json_dict resp resource_root, s')))"

text \<open>The body of both role moves: \<^verbatim>\<open>{ApiList.LIST_KEY : role_names}\<close>.\<close>

definition role_names_dict :: "string list \<Rightarrow> json" where
  "role_names_dict role_names = JObj [(LIST_KEY, JArr (map JStr role_names))]"

definition move_roles ::
  "(json \<Rightarrow> string) \<Rightarrow> (json \<Rightarrow> 's resource_root \<Rightarrow> error + 'r) \<Rightarrow>
   's resource_root \<Rightarrow> string \<Rightarrow> string \<Rightarrow> string list \<Rightarrow> string option \<Rightarrow>
   's \<Rightarrow> (error + 'r list) \<times> 's" where
  "move_roles dumps ApiRole resource_root service_name group_name role_names cluster_name s =
     (case priv_get_role_config_group_path cluster_name service_name group_name of
        Inl e \<Rightarrow> (Inl e, s)
      | Inr p \<Rightarrow>
          (let path = p @ ''/roles'' in
           case put resource_root path (Some (dumps (role_names_dict role_names))) s of
             (Inl e, s') \<Rightarrow> (Inl e, s')
           | (Inr resp, s') \<Rightarrow> (ApiList_from_json_dict ApiRole resp resource_root, s')))"

definition move_roles_to_base_role_config_group ::
  "(json \<Rightarrow> string) \<Rightarrow> (json \<Rightarrow> 's resource_root \<Rightarrow> error + 'r) \<Rightarrow>
   's resource_root \<Rightarrow> string \<Rightarrow> string list \<Rightarrow> string option \<Rightarrow>
   's \<Rightarrow> (error + 'r list) \<times> 's" where
  "move_roles_to_base_role_config_group dumps ApiRole resource_root service_name
       role_names cluster_name s =
     (case priv_get_role_config_groups_path cluster_name service_name of
        Inl e \<Rightarrow> (Inl e, s)
      | Inr p \<Rightarrow>
          (let path = p @ ''/roles'' in
           case put resource_root path (Some (dumps (role_names_dict role_names))) s of
             (Inl e, s') \<Rightarrow> (Inl e, s')
           | (Inr resp, s') \<Rightarrow> (ApiList_from_json_dict ApiRole resp resource_root, s')))"

subsection \<open>Methods of the entity\<close>

text \<open>
  \<^verbatim>\<open>_path(self)\<close>. A group built by the client has no \<^verbatim>\<open>serviceRef\<close>, and reading
  \<^verbatim>\<open>self.serviceRef.clusterName\<close> then raises \<^verbatim>\<open>AttributeError\<close>.
\<close>

definition priv_path :: "'s ApiRoleConfigGroup \<Rightarrow> error + string" where
  "priv_path self =
     (case serviceRef self of
        None \<Rightarrow> Inl (AttributeError ''clusterName'')
      | Some ref \<Rightarrow>
          priv_get_role_config_group_path (clusterName ref) (serviceName ref) (name self))"

text \<open>
  \<^verbatim>\<open>view and dict(view=view) or None\<close>: a falsy view gives \<^verbatim>\<open>None\<close>; a truthy view gives
  the one-entry dictionary, which is itself truthy.
\<close>

definition view_params :: "string option \<Rightarrow> (string \<times> string) list option" where
  "view_params view = (if truthy view then Some [(''view'', the view)] else None)"

definition get_config ::
  "'s ApiRoleConfigGroup \<Rightarrow> string option \<Rightarrow> 's \<Rightarrow> (error + config) \<times> 's" where
  "get_config self view s =
     (case priv_path self of
        Inl e \<Rightarrow> (Inl e, s)
      | Inr p \<Rightarrow>
          (let path = p @ ''/config'' in
           case get (priv_get_resource_root self) path (view_params view) s of
             (Inl e, s') \<Rightarrow> (Inl e, s')
           | (Inr resp, s') \<Rightarrow> (json_to_config resp (view = Some ''full''), s')))"

text \<open>
  \<open>config_to_json\<close> is the imported encoder of a config update; its shape is external.
  The dictionary to send is given by its items.
\<close>

definition update_config ::
  "((string \<times> string) list \<Rightarrow> string) \<Rightarrow> 's ApiRoleConfigGroup \<Rightarrow>
   (string \<times> string) list \<Rightarrow> 's \<Rightarrow> (error + config) \<times> 's" where
  "update_config config_to_json self new_config s =
     (case priv_path self of
        Inl e \<Rightarrow> (Inl e, s)
      | Inr p \<Rightarrow>
          (let path = p @ ''/config'' in
           case put (priv_get_resource_root self) path (Some (config_to_json new_config)) s of
             (Inl e, s') \<Rightarrow> (Inl e, s')
           | (Inr resp, s') \<Rightarrow> (json_to_config resp False, s')))"

definition get_all_roles ::
  "(json \<Rightarrow> 's resource_root \<Rightarrow> error + 'r) \<Rightarrow> 's ApiRoleConfigGroup \<Rightarrow>
   's \<Rightarrow> (error + 'r list) \<times> 's" where
  "get_all_roles ApiRole self s =
     (case priv_path self of
        Inl e \<Rightarrow> (Inl e, s)
      | Inr p \<Rightarrow>
          (let path = p @ ''/roles'' in
           case get (priv_get_resource_root self) path None s of
             (Inl e, s') \<Rightarrow> (Inl e, s')
           | (Inr resp, s') \<Rightarrow>
               (ApiList_from_json_dict ApiRole resp (priv_get_resource_root self), s')))"

text \<open>The method \<^verbatim>\<open>move_roles(self, roles)\<close>, which delegates to the module's function.\<close>

definition ApiRoleConfigGroup_move_roles ::
  "(json \<Rightarrow> string) \<Rightarrow> (json \<Rightarrow> 's resource_root \<Rightarrow> error + 'r) \<Rightarrow>
   's ApiRoleConfigGroup \<Rightarrow> string list \<Rightarrow> 's \<Rightarrow> (error + 'r list) \<times> 's" where
  "ApiRoleConfigGroup_move_roles dumps ApiRole self roles s =
     (case serviceRef self of
        None \<Rightarrow> (Inl (AttributeError ''serviceName''), s)
      | Some ref \<Rightarrow>
          move_roles dumps ApiRole (priv_get_resource_root self) (serviceName ref)
            (name self) roles (clusterName ref) s)"

subsection \<open>Observing the transport\<close>

text \<open>
  To count and inspect transport calls, a transport is wrapped so that every call of one
  of its four methods appends the request to a log kept beside the remote state. The
  wrapped transport answers as the original does.
\<close>

datatype request =
    Get string "(string \<times> string) list option"
  | Post string "string option"
  | Put string "string option"
  | Delete string

definition recording :: "'s resource_root \<Rightarrow> ('s \<times> request list) resource_root" where
  "recording rr =
     \<lparr> get = (\<lambda>path params (s, log).
         case get rr path params s of (r, s') \<Rightarrow> (r, (s', log @ [Get path params]))),
       post = (\<lambda>path data (s, log).
         case post rr path data s of (r, s') \<Rightarrow> (r, (s', log @ [Post path data]))),
       put = (\<lambda>path data (s, log).
         case put rr path data s of (r, s') \<Rightarrow> (r, (s', log @ [Put path data]))),
       delete = (\<lambda>path (s, log).
         case delete rr path s of (r, s') \<Rightarrow> (r, (s', log @ [Delete path]))) \<rparr>"

subsection \<open>Fixtures for the examples\<close>

text \<open>
  Modelled from the spec: the fake transport of the spec's testable properties. It
  answers every request with one fixed body; its state counts the requests served.
\<close>

definition fake_transport :: "json \<Rightarrow> nat resource_root" where
  "fake_transport body =
     \<lparr> get = (\<lambda>path params n. (Inr body, Suc n)),
       post = (\<lambda>path data n. (Inr body, Suc n)),
       put = (\<lambda>path data n. (Inr body, Suc n)),
       delete = (\<lambda>path n. (Inr body, Suc n)) \<rparr>"

text \<open>A transport whose every call fails with the given exception.\<close>

definition failing_transport :: "error \<Rightarrow> nat resource_root" where
  "failing_transport e =
     \<lparr> get = (\<lambda>path params n. (Inl e, Suc n)),
       post = (\<lambda>path data n. (Inl e, Suc n)),
       put = (\<lambda>path data n. (Inl e, Suc n)),
       delete = (\<lambda>path n. (Inl e, Suc n)) \<rparr>"

text \<open>
  Modelled from the spec: the entity codec of the generic typed-object base
  (\<^verbatim>\<open>BaseApiObject.from_json_dict\<close> and \<^verbatim>\<open>to_json_dict\<close>, not among the sources), as far
  as the examples need it. Decoding reads the attributes \<^verbatim>\<open>name\<close>, \<^verbatim>\<open>displayName\<close> and
  \<^verbatim>\<open>roleType\<close> and the server-assigned \<^verbatim>\<open>base\<close> and \<^verbatim>\<open>serviceRef\<close> from a response
  object; encoding sends the three names. The operations themselves take the codec as
  an argument and do not depend on this one.
\<close>

definition service_ref_of :: "json \<Rightarrow> ApiServiceRef option" where
  "service_ref_of j =
     (case j of
        JObj attrs \<Rightarrow>
          (case map_of attrs ''serviceName'' of
             Some (JStr sn) \<Rightarrow>
               Some \<lparr> clusterName =
                        (case map_of attrs ''clusterName'' of
                           Some (JStr c) \<Rightarrow> Some c
                         | _ \<Rightarrow> None),
                      serviceName = sn \<rparr>
           | _ \<Rightarrow> None)
      | _ \<Rightarrow> None)"

definition fixture_from_json_dict ::
  "json \<Rightarrow> 's resource_root \<Rightarrow> error + 's ApiRoleConfigGroup" where
  "fixture_from_json_dict dic resource_root =
     (case dic of
        JObj attrs \<Rightarrow>
          (case (map_of attrs ''name'', map_of attrs ''displayName'',
                 map_of attrs ''roleType'') of
             (Some (JStr n), Some (JStr d), Some (JStr t)) \<Rightarrow>
               Inr ((ApiRoleConfigGroup_init resource_root n d t None)
                 \<lparr> base := (case map_of attrs ''base'' of
                              Some (JBool b) \<Rightarrow> Some b
                            | _ \<Rightarrow> None),
                   serviceRef := (case map_of attrs ''serviceRef'' of
                                    Some r \<Rightarrow> service_ref_of r
                                  | None \<Rightarrow> None) \<rparr>)
           | _ \<Rightarrow> Inl (KeyError ''name''))
      | _ \<Rightarrow> Inl TypeError)"

definition fixture_to_json_dict :: "'s ApiRoleConfigGroup \<Rightarrow> json" where
  "fixture_to_json_dict g =
     JObj [(''name'', JStr (name g)), (''displayName'', JStr (displayName g)),
           (''roleType'', JStr (roleType g))]"

text \<open>
  Modelled from the spec: a role as the examples need it (the role model of
  \<^verbatim>\<open>cm_api.endpoints.roles\<close> is not among the sources): a role has a name, a type and
  the host it runs on, and its decoder requires all three.
\<close>

datatype role = Role (role_name: string) (role_kind: string) (role_host: string)

definition fixture_role :: "json \<Rightarrow> 's resource_root \<Rightarrow> error + role" where
  "fixture_role dic resource_root =
     (case dic of
        JObj attrs \<Rightarrow>
          (case (map_of attrs ''name'', map_of attrs ''type'', map_of attrs ''hostRef'') of
             (Some (JStr n), Some (JStr t), Some (JObj host)) \<Rightarrow>
               (case map_of host ''hostId'' of
                  Some (JStr h) \<Rightarrow> Inr (Role n t h)
                | _ \<Rightarrow> Inl (KeyError ''hostId''))
           | _ \<Rightarrow> Inl TypeError)
      | _ \<Rightarrow> Inl TypeError)"

text \<open>The response object of a role.\<close>

definition role_json :: "string \<Rightarrow> json" where
  "role_json n =
     JObj [(''name'', JStr n), (''type'', JStr ''DATANODE''),
           (''hostRef'', JObj [(''hostId'', JStr ''host-1'')])]"

text \<open>
  A stand-in for \<^verbatim>\<open>json.dumps\<close> in the examples: Python's default separators, no escapes.
\<close>

fun digits :: "nat \<Rightarrow> string" where
  "digits n =
     (if n < 10 then [char_of (48 + n)]
      else digits (n div 10) @ [char_of (48 + n mod 10)])"

fun joined :: "string \<Rightarrow> string list \<Rightarrow> string" where
  "joined sep [] = []"
| "joined sep [x] = x"
| "joined sep (x # y # ys) = x @ sep @ joined sep (y # ys)"

fun fixture_dumps :: "json \<Rightarrow> string" where
  "fixture_dumps JNull = ''null''"
| "fixture_dumps (JBool b) = (if b then ''true'' else ''false'')"
| "fixture_dumps (JNum n) = (if n < 0 then ''-'' @ digits (nat (- n)) else digits (nat n))"
| "fixture_dumps (JStr s) = [CHR 0x22] @ s @ [CHR 0x22]"
| "fixture_dumps (JArr xs) = ''['' @ joined '', '' (map fixture_dumps xs) @ '']''"
| "fixture_dumps (JObj kvs) =
     ''{'' @ joined '', ''
              (map (\<lambda>(k, v). [CHR 0x22] @ k @ [CHR 0x22] @ '': '' @ fixture_dumps v) kvs)
         @ ''}''"

text \<open>
  A stand-in for \<^verbatim>\<open>config_to_json\<close> in the examples: the items as a list of
  name and value objects.
\<close>

definition fixture_config_to_json :: "(string \<times> string) list \<Rightarrow> string" where
  "fixture_config_to_json cfg =
     fixture_dumps
       (JObj [(''items'',
               JArr (map (\<lambda>(k, v). JObj [(''name'', JStr k), (''value'', JStr v)]) cfg))])"

text \<open>The config response of the spec's testable properties.\<close>

definition config_response :: json where
  "config_response = JObj [(''items'', JArr [JObj [(''name'', JStr ''k''), (''value'', JStr ''v'')]])]"

text \<open>A group as the server returns it, and the response object that carries it.\<close>

definition datanode_group :: "'s resource_root \<Rightarrow> 's ApiRoleConfigGroup" where
  "datanode_group resource_root =
     \<lparr> priv_get_resource_root = resource_root,
       name = ''dn-1'',
       displayName = ''DataNode Group 1'',
       roleType = ''DATANODE'',
       config = None,
       base = Some False,
       serviceRef = Some \<lparr> clusterName = Some ''c1'', serviceName = ''hdfs'' \<rparr> \<rparr>"

definition datanode_group_json :: json where
  "datanode_group_json =
     JObj [(''name'', JStr ''dn-1''), (''displayName'', JStr ''DataNode Group 1''),
           (''roleType'', JStr ''DATANODE''), (''base'', JBool False),
           (''serviceRef'', JObj [(''clusterName'', JStr ''c1''),
                                  (''serviceName'', JStr ''hdfs'')])]"

text \<open>The answer to a batch creation that created the one group.\<close>

definition created_response :: json where
  "created_response = JObj [(''items'', JArr [datanode_group_json])]"

text \<open>
  Two answers to a role move: one that lists one of the requested roles, and one that
  lists a role nobody asked for.
\<close>

definition one_role_response :: json where
  "one_role_response = JObj [(''items'', JArr [role_json ''r1''])]"

definition stray_role_response :: json where
  "stray_role_response = JObj [(''items'', JArr [role_json ''r9''])]"

text \<open>
  Two config responses that carry something else than a string: an item without a
  value, and an item whose value is a number.
\<close>

definition valueless_config_response :: json where
  "valueless_config_response = JObj [(''items'', JArr [JObj [(''name'', JStr ''k'')]])]"

definition numeric_config_response :: json where
  "numeric_config_response =
     JObj [(''items'', JArr [JObj [(''name'', JStr ''k''), (''value'', JNum 5)]])]"

section \<open>Properties\<close>

subsection \<open>Formatting and paths\<close>

lemma collection_template:
  "percent_format ROLE_CONFIG_GROUPS_PATH [c, s] =
     Inr (''/clusters/'' @ c @ ''/services/'' @ s @ ''/roleConfigGroups'')"
  by (simp add: ROLE_CONFIG_GROUPS_PATH_def)

lemma singleton_template:
  "percent_format ''%s/%s'' [p, n] = Inr (p @ ''/'' @ n)"
  by simp

lemma groups_path_value:
  "priv_get_role_config_groups_path cluster_name service_name =
     Inr (if truthy cluster_name
          then ''/clusters/'' @ the cluster_name @ ''/services/'' @ service_name @ ''/roleConfigGroups''
          else ''/cm/service/roleConfigGroups'')"
  by (simp add: priv_get_role_config_groups_path_def collection_template
      CM_ROLE_CONFIG_GROUPS_PATH_def)

lemma group_path_value:
  "priv_get_role_config_group_path cluster_name service_name group_name =
     Inr ((if truthy cluster_name
           then ''/clusters/'' @ the cluster_name @ ''/services/'' @ service_name @ ''/roleConfigGroups''
           else ''/cm/service/roleConfigGroups'') @ ''/'' @ group_name)"
  unfolding priv_get_role_config_group_path_def groups_path_value
  by (simp only: sum.case singleton_template)


text \<open>
  C1. With a truthy (non-empty) cluster name the collection path is the cluster-scoped
  template with the cluster name and the service name substituted in that order; with a
  falsy cluster name (\<^verbatim>\<open>None\<close> or the empty string) it is the fixed path
  \<^verbatim>\<open>/cm/service/roleConfigGroups\<close>, whatever the service name.
\<close>

theorem collection_path_by_cluster:
  "(c \<noteq> [] \<longrightarrow>
      priv_get_role_config_groups_path (Some c) service_name =
        Inr (''/clusters/'' @ c @ ''/services/'' @ service_name @ ''/roleConfigGroups''))
   \<and> priv_get_role_config_groups_path None service_name = Inr ''/cm/service/roleConfigGroups''
   \<and> priv_get_role_config_groups_path (Some []) service_name =
        Inr ''/cm/service/roleConfigGroups''"
  by (simp add: priv_get_role_config_groups_path_def truthy_def collection_template
      CM_ROLE_CONFIG_GROUPS_PATH_def)

theorem collection_path_by_cluster_witness:
  "''c1'' \<noteq> []
   \<and> priv_get_role_config_groups_path (Some ''c1'') ''hdfs'' =
        Inr ''/clusters/c1/services/hdfs/roleConfigGroups''
   \<and> priv_get_role_config_groups_path None ''hdfs'' = Inr ''/cm/service/roleConfigGroups''
   \<and> priv_get_role_config_groups_path (Some []) ''hdfs'' = Inr ''/cm/service/roleConfigGroups''"
  using collection_path_by_cluster [of "''c1''" "''hdfs''"] by simp

subsection \<open>What the recording transport logs\<close>

lemma recording_get:
  "get (recording rr) path params (s, log) =
     (fst (get rr path params s), (snd (get rr path params s), log @ [Get path params]))"
  by (simp add: recording_def split: prod.splits)

lemma recording_post:
  "post (recording rr) path data (s, log) =
     (fst (post rr path data s), (snd (post rr path data s), log @ [Post path data]))"
  by (simp add: recording_def split: prod.splits)

lemma recording_put:
  "put (recording rr) path data (s, log) =
     (fst (put rr path data s), (snd (put rr path data s), log @ [Put path data]))"
  by (simp add: recording_def split: prod.splits)

lemma recording_delete:
  "delete (recording rr) path (s, log) =
     (fst (delete rr path s), (snd (delete rr path s), log @ [Delete path]))"
  by (simp add: recording_def split: prod.splits)

subsection \<open>The fixtures evaluated\<close>

lemma fake_transport_calls:
  "get (fake_transport body) path params n = (Inr body, Suc n)"
  "post (fake_transport body) path data n = (Inr body, Suc n)"
  "put (fake_transport body) path data n = (Inr body, Suc n)"
  "delete (fake_transport body) path n = (Inr body, Suc n)"
  by (simp_all add: fake_transport_def)

lemma fixture_decodes_datanode_group:
  "fixture_from_json_dict datanode_group_json rr = Inr (datanode_group rr)"
  by (simp add: fixture_from_json_dict_def datanode_group_json_def datanode_group_def
      ApiRoleConfigGroup_init_def service_ref_of_def)

lemma failing_transport_calls:
  "get (failing_transport e) path params n = (Inl e, Suc n)"
  "post (failing_transport e) path data n = (Inl e, Suc n)"
  "put (failing_transport e) path data n = (Inl e, Suc n)"
  "delete (failing_transport e) path n = (Inl e, Suc n)"
  by (simp_all add: failing_transport_def)

subsection \<open>Requests of the role moves\<close>

text \<open>
  C5. For every list of role names, \<^verbatim>\<open>move_roles\<close> issues a PUT on the singleton path
  of the group with \<^verbatim>\<open>/roles\<close> appended, and \<^verbatim>\<open>move_roles_to_base_role_config_group\<close>
  issues a PUT on the collection path with \<^verbatim>\<open>/roles\<close> appended; the body of each is the
  JSON serialisation of \<^verbatim>\<open>{"items": role_names}\<close>. The log of the recording transport
  grows by exactly that request.
\<close>

theorem role_moves_requests:
  "(\<exists>p. priv_get_role_config_group_path cluster_name service_name group_name = Inr p \<and>
        snd (snd (move_roles dumps ApiRole (recording rr) service_name group_name
                    role_names cluster_name (s, log))) =
          log @ [Put (p @ ''/roles'')
                   (Some (dumps (JObj [(''items'', JArr (map JStr role_names))])))])
   \<and> (\<exists>q. priv_get_role_config_groups_path cluster_name service_name = Inr q \<and>
        snd (snd (move_roles_to_base_role_config_group dumps ApiRole (recording rr)
                    service_name role_names cluster_name (s, log))) =
          log @ [Put (q @ ''/roles'')
                   (Some (dumps (JObj [(''items'', JArr (map JStr role_names))])))])"
proof (intro conjI)
  show "\<exists>p. priv_get_role_config_group_path cluster_name service_name group_name = Inr p \<and>
        snd (snd (move_roles dumps ApiRole (recording rr) service_name group_name
                    role_names cluster_name (s, log))) =
          log @ [Put (p @ ''/roles'')
                   (Some (dumps (JObj [(''items'', JArr (map JStr role_names))])))]"
    by (simp add: Let_def group_path_value move_roles_def recording_put role_names_dict_def
        LIST_KEY_def split: sum.splits)
  show "\<exists>q. priv_get_role_config_groups_path cluster_name service_name = Inr q \<and>
        snd (snd (move_roles_to_base_role_config_group dumps ApiRole (recording rr)
                    service_name role_names cluster_name (s, log))) =
          log @ [Put (q @ ''/roles'')
                   (Some (dumps (JObj [(''items'', JArr (map JStr role_names))])))]"
    by (simp add: Let_def groups_path_value move_roles_to_base_role_config_group_def recording_put
        role_names_dict_def LIST_KEY_def split: sum.splits)
qed

theorem role_moves_requests_witness:
  "snd (snd (move_roles fixture_dumps fixture_role
               (recording (fake_transport (JObj [(''items'', JArr [])])))
               ''hdfs'' ''dn-1'' [''r1'', ''r2''] (Some ''c1'') (0, []))) =
     [Put ''/clusters/c1/services/hdfs/roleConfigGroups/dn-1/roles''
        (Some (fixture_dumps (JObj [(''items'', JArr [JStr ''r1'', JStr ''r2''])])))]
   \<and> snd (snd (move_roles_to_base_role_config_group fixture_dumps fixture_role
               (recording (fake_transport (JObj [(''items'', JArr [])])))
               ''hdfs'' [''r1'', ''r2''] None (0, []))) =
     [Put ''/cm/service/roleConfigGroups/roles''
        (Some (fixture_dumps (JObj [(''items'', JArr [JStr ''r1'', JStr ''r2''])])))]"
  using role_moves_requests [of "Some ''c1''" "''hdfs''" "''dn-1''" fixture_dumps fixture_role
      "fake_transport (JObj [(''items'', JArr [])])" "[''r1'', ''r2'']" 0 "[]"]
    role_moves_requests [of None "''hdfs''" "''dn-1''" fixture_dumps fixture_role
      "fake_transport (JObj [(''items'', JArr [])])" "[''r1'', ''r2'']" 0 "[]"]
  by (simp add: group_path_value groups_path_value truthy_def)

subsection \<open>One transport call per operation\<close>

text \<open>
  C6. Each module-level operation performs exactly one call on the injected transport:
  whatever the transport answers, the log of the recording transport grows by exactly one
  request. \<^verbatim>\<open>create_role_config_group\<close> makes no call of its own: it leaves the transport
  in the state in which its single delegation to \<^verbatim>\<open>create_role_config_groups\<close> leaves it,
  so it too accounts for exactly one call.
\<close>

theorem one_transport_call_each:
  "(\<exists>req. snd (snd (create_role_config_groups dumps to_json_dict from_json_dict (recording rr)
                      service_name apigroup_list cluster_name (s, log))) = log @ [req])
   \<and> (\<exists>req. snd (snd (get_role_config_group from_json_dict (recording rr)
                      service_name group_name cluster_name (s, log))) = log @ [req])
   \<and> (\<exists>req. snd (snd (get_all_role_config_groups from_json_dict (recording rr)
                      service_name cluster_name (s, log))) = log @ [req])
   \<and> (\<exists>req. snd (snd (update_role_config_group dumps to_json_dict from_json_dict (recording rr)
                      service_name group_name apigroup cluster_name (s, log))) = log @ [req])
   \<and> (\<exists>req. snd (snd (delete_role_config_group from_json_dict (recording rr)
                      service_name group_name cluster_name (s, log))) = log @ [req])
   \<and> (\<exists>req. snd (snd (move_roles dumps ApiRole (recording rr)
                      service_name group_name role_names cluster_name (s, log))) = log @ [req])
   \<and> (\<exists>req. snd (snd (move_roles_to_base_role_config_group dumps ApiRole (recording rr)
                      service_name role_names cluster_name (s, log))) = log @ [req])
   \<and> (\<exists>req. snd (snd (create_role_config_group dumps to_json_dict from_json_dict (recording rr)
                      service_name group_name display_name role_type cluster_name (s, log))) =
                log @ [req])
   \<and> snd (create_role_config_group dumps to_json_dict from_json_dict (recording rr)
            service_name group_name display_name role_type cluster_name (s, log)) =
     snd (create_role_config_groups dumps to_json_dict from_json_dict (recording rr)
            service_name
            [ApiRoleConfigGroup_init (recording rr) group_name display_name role_type None]
            cluster_name (s, log))"
proof (intro conjI)
  show "\<exists>req. snd (snd (create_role_config_groups dumps to_json_dict from_json_dict (recording rr)
                      service_name apigroup_list cluster_name (s, log))) = log @ [req]"
    by (simp add: Let_def create_role_config_groups_def groups_path_value recording_post
        split: sum.splits)
  show "\<exists>req. snd (snd (get_role_config_group from_json_dict (recording rr)
                      service_name group_name cluster_name (s, log))) = log @ [req]"
    by (simp add: get_role_config_group_def priv_get_role_config_group_def group_path_value
        recording_get split: sum.splits)
  show "\<exists>req. snd (snd (get_all_role_config_groups from_json_dict (recording rr)
                      service_name cluster_name (s, log))) = log @ [req]"
    by (simp add: get_all_role_config_groups_def groups_path_value recording_get
        split: sum.splits)
  show "\<exists>req. snd (snd (update_role_config_group dumps to_json_dict from_json_dict (recording rr)
                      service_name group_name apigroup cluster_name (s, log))) = log @ [req]"
    by (simp add: Let_def update_role_config_group_def group_path_value recording_put
        split: sum.splits)
  show "\<exists>req. snd (snd (delete_role_config_group from_json_dict (recording rr)
                      service_name group_name cluster_name (s, log))) = log @ [req]"
    by (simp add: delete_role_config_group_def group_path_value recording_delete
        split: sum.splits)
  show "\<exists>req. snd (snd (move_roles dumps ApiRole (recording rr)
                      service_name group_name role_names cluster_name (s, log))) = log @ [req]"
    by (simp add: Let_def move_roles_def group_path_value recording_put split: sum.splits)
  show "\<exists>req. snd (snd (move_roles_to_base_role_config_group dumps ApiRole (recording rr)
                      service_name role_names cluster_name (s, log))) = log @ [req]"
    by (simp add: Let_def move_roles_to_base_role_config_group_def groups_path_value recording_put
        split: sum.splits)
  show "\<exists>req. snd (snd (create_role_config_group dumps to_json_dict from_json_dict (recording rr)
                      service_name group_name display_name role_type cluster_name (s, log))) =
                log @ [req]"
    by (simp add: Let_def create_role_config_group_def create_role_config_groups_def
        groups_path_value recording_post split: sum.splits)
  show "snd (create_role_config_group dumps to_json_dict from_json_dict (recording rr)
            service_name group_name display_name role_type cluster_name (s, log)) =
     snd (create_role_config_groups dumps to_json_dict from_json_dict (recording rr)
            service_name
            [ApiRoleConfigGroup_init (recording rr) group_name display_name role_type None]
            cluster_name (s, log))"
    by (simp add: Let_def create_role_config_group_def split: prod.splits sum.splits)
qed

theorem one_transport_call_each_witness:
  "snd (snd (get_all_role_config_groups fixture_from_json_dict
               (recording (fake_transport created_response)) ''hdfs'' (Some ''c1'') (0, []))) =
     [Get ''/clusters/c1/services/hdfs/roleConfigGroups'' None]
   \<and> snd (snd (create_role_config_group fixture_dumps fixture_to_json_dict
               fixture_from_json_dict (recording (failing_transport (Raised ''503'')))
               ''mgmt'' ''dn-1'' ''DataNode Group 1'' ''DATANODE'' None (0, []))) =
     [Post ''/cm/service/roleConfigGroups''
        (Some (fixture_dumps (ApiList_to_json_dict fixture_to_json_dict
           [ApiRoleConfigGroup_init (recording (failing_transport (Raised ''503'')))
              ''dn-1'' ''DataNode Group 1'' ''DATANODE'' None])))]"
  using one_transport_call_each [of fixture_dumps fixture_to_json_dict fixture_from_json_dict
      "fake_transport created_response" "''hdfs''" "[]" "Some ''c1''" 0 "[]" "''dn-1''"]
    one_transport_call_each [of fixture_dumps fixture_to_json_dict fixture_from_json_dict
      "failing_transport (Raised ''503'')" "''mgmt''" "[]" None 0 "[]" "''dn-1''"]
  by (simp add: get_all_role_config_groups_def create_role_config_group_def
      create_role_config_groups_def Let_def groups_path_value truthy_def recording_get
      recording_post fake_transport_calls failing_transport_calls split: sum.splits)

subsection \<open>Creating one group\<close>

text \<open>
  C3. \<^verbatim>\<open>create_role_config_group\<close> returns the first element of what
  \<^verbatim>\<open>create_role_config_groups\<close> returns for the one-element list holding
  \<^verbatim>\<open>ApiRoleConfigGroup(resource_root, name, display_name, role_type)\<close>; an error of the
  batch call is returned unchanged; and the transport is left in the state the batch call
  left it in, so the wrapper makes no transport call of its own.
\<close>

theorem create_role_config_group_is_first_of_batch:
  "create_role_config_group dumps to_json_dict from_json_dict resource_root
       service_name group_name display_name role_type cluster_name s =
     (case create_role_config_groups dumps to_json_dict from_json_dict resource_root
             service_name
             [ApiRoleConfigGroup_init resource_root group_name display_name role_type None]
             cluster_name s of
        (Inl e, s') \<Rightarrow> (Inl e, s')
      | (Inr [], s') \<Rightarrow> (Inl IndexError, s')
      | (Inr (g # gs), s') \<Rightarrow> (Inr g, s'))"
  by (simp add: Let_def create_role_config_group_def ApiList_getitem_def
      split: prod.splits sum.splits list.splits)

theorem create_role_config_group_is_first_of_batch_witness:
  "create_role_config_group fixture_dumps fixture_to_json_dict fixture_from_json_dict
       (fake_transport created_response) ''hdfs'' ''dn-1'' ''DataNode Group 1'' ''DATANODE''
       (Some ''c1'') 0 =
     (Inr (datanode_group (fake_transport created_response)), 1)
   \<and> create_role_config_group fixture_dumps fixture_to_json_dict fixture_from_json_dict
       (failing_transport (Raised ''503'')) ''hdfs'' ''dn-1'' ''DataNode Group 1'' ''DATANODE''
       (Some ''c1'') 0 =
     (Inl (Raised ''503''), 1)"
  using create_role_config_group_is_first_of_batch [of fixture_dumps fixture_to_json_dict
      fixture_from_json_dict "fake_transport created_response" "''hdfs''" "''dn-1''"
      "''DataNode Group 1''" "''DATANODE''" "Some ''c1''" 0]
    create_role_config_group_is_first_of_batch [of fixture_dumps fixture_to_json_dict
      fixture_from_json_dict "failing_transport (Raised ''503'')" "''hdfs''" "''dn-1''"
      "''DataNode Group 1''" "''DATANODE''" "Some ''c1''" 0]
  by (simp add: create_role_config_groups_def Let_def groups_path_value truthy_def
      fake_transport_calls failing_transport_calls created_response_def
      ApiList_from_json_dict_def LIST_KEY_def fixture_decodes_datanode_group)

subsection \<open>An empty batch response\<close>

text \<open>
  C8. The \<^verbatim>\<open>[0]\<close> on the result of \<^verbatim>\<open>create_role_config_groups\<close> is unguarded: when
  the list decoded from the batch response is empty, \<^verbatim>\<open>create_role_config_group\<close> fails
  with \<^verbatim>\<open>IndexError\<close> instead of returning a value, and it returns normally exactly when
  the decoded list has at least one item.
\<close>

theorem create_role_config_group_empty_batch:
  "(fst (create_role_config_groups dumps to_json_dict from_json_dict resource_root
           service_name
           [ApiRoleConfigGroup_init resource_root group_name display_name role_type None]
           cluster_name s) = Inr [] \<longrightarrow>
      fst (create_role_config_group dumps to_json_dict from_json_dict resource_root
             service_name group_name display_name role_type cluster_name s) = Inl IndexError)
   \<and> ((\<exists>g. fst (create_role_config_group dumps to_json_dict from_json_dict resource_root
                   service_name group_name display_name role_type cluster_name s) = Inr g) =
        (\<exists>g gs. fst (create_role_config_groups dumps to_json_dict from_json_dict resource_root
                      service_name
                      [ApiRoleConfigGroup_init resource_root group_name display_name role_type None]
                      cluster_name s) = Inr (g # gs)))"
  by (auto simp add: Let_def create_role_config_group_def ApiList_getitem_def neq_Nil_conv
      split: prod.splits sum.splits list.splits)

theorem create_role_config_group_empty_batch_witness:
  "fst (create_role_config_groups fixture_dumps fixture_to_json_dict fixture_from_json_dict
          (fake_transport (JObj [(''items'', JArr [])])) ''hdfs''
          [ApiRoleConfigGroup_init (fake_transport (JObj [(''items'', JArr [])]))
             ''dn-1'' ''DataNode Group 1'' ''DATANODE'' None]
          (Some ''c1'') 0) = Inr []
   \<and> fst (create_role_config_group fixture_dumps fixture_to_json_dict fixture_from_json_dict
          (fake_transport (JObj [(''items'', JArr [])])) ''hdfs''
          ''dn-1'' ''DataNode Group 1'' ''DATANODE'' (Some ''c1'') 0) = Inl IndexError"
proof -
  have batch: "fst (create_role_config_groups fixture_dumps fixture_to_json_dict fixture_from_json_dict
          (fake_transport (JObj [(''items'', JArr [])])) ''hdfs''
          [ApiRoleConfigGroup_init (fake_transport (JObj [(''items'', JArr [])]))
             ''dn-1'' ''DataNode Group 1'' ''DATANODE'' None]
          (Some ''c1'') 0) = Inr []"
    by (simp add: create_role_config_groups_def groups_path_value fake_transport_calls
        ApiList_from_json_dict_def LIST_KEY_def Let_def)
  with create_role_config_group_empty_batch [of fixture_dumps fixture_to_json_dict
      fixture_from_json_dict "fake_transport (JObj [(''items'', JArr [])])" "''hdfs''"
      "''dn-1''" "''DataNode Group 1''" "''DATANODE''" "Some ''c1''" 0]
  show ?thesis by simp
qed

subsection \<open>Deleting a group\<close>

text \<open>
  C7. \<^verbatim>\<open>delete_role_config_group\<close> issues a single DELETE on the singleton path of the
  name and returns the group decoded from the body of the transport's response; an
  error of the transport is returned unchanged. In particular, when the transport
  answers with the object the group was before the deletion, the result is that group,
  not an empty value.
\<close>

theorem delete_returns_decoded_response:
  "\<exists>p. priv_get_role_config_group_path cluster_name service_name group_name = Inr p
     \<and> snd (snd (delete_role_config_group from_json_dict (recording rr)
                   service_name group_name cluster_name (s, log))) = log @ [Delete p]
     \<and> fst (delete_role_config_group from_json_dict (recording rr)
              service_name group_name cluster_name (s, log)) =
         (case fst (delete rr p s) of
            Inl e \<Rightarrow> Inl e
          | Inr resp \<Rightarrow> from_json_dict resp (recording rr))
     \<and> fst (snd (delete_role_config_group from_json_dict (recording rr)
                   service_name group_name cluster_name (s, log))) = snd (delete rr p s)
     \<and> (\<forall>resp g. fst (delete rr p s) = Inr resp \<and>
                   from_json_dict resp (recording rr) = Inr g \<longrightarrow>
           fst (delete_role_config_group from_json_dict (recording rr)
                  service_name group_name cluster_name (s, log)) = Inr g)"
  by (auto simp add: group_path_value delete_role_config_group_def recording_delete
      split: sum.splits prod.splits)

theorem delete_returns_decoded_response_witness:
  "fst (delete (fake_transport datanode_group_json)
          ''/clusters/c1/services/hdfs/roleConfigGroups/dn-1'' 0) = Inr datanode_group_json
   \<and> fixture_from_json_dict datanode_group_json
         (recording (fake_transport datanode_group_json)) =
       Inr (datanode_group (recording (fake_transport datanode_group_json)))
   \<and> delete_role_config_group fixture_from_json_dict
         (recording (fake_transport datanode_group_json))
         ''hdfs'' ''dn-1'' (Some ''c1'') (0, []) =
       (Inr (datanode_group (recording (fake_transport datanode_group_json))),
        (1, [Delete ''/clusters/c1/services/hdfs/roleConfigGroups/dn-1'']))"
  using delete_returns_decoded_response [of "Some ''c1''" "''hdfs''" "''dn-1''"
      fixture_from_json_dict "fake_transport datanode_group_json" 0 "[]"]
  by (simp add: group_path_value truthy_def fake_transport_calls
      fixture_decodes_datanode_group prod_eq_iff)

subsection \<open>What the role moves return\<close>

lemma decode_members_length:
  "decode_members member js = Inr xs \<Longrightarrow> length xs = length js"
proof (induction js arbitrary: xs)
  case Nil
  then show ?case by simp
next
  case (Cons j js)
  then show ?case by (auto split: sum.splits)
qed

lemma decode_members_set:
  "decode_members member js = Inr xs \<Longrightarrow> set xs = {x. \<exists>j\<in>set js. member j = Inr x}"
proof (induction js arbitrary: xs)
  case Nil
  then show ?case by simp
next
  case (Cons j js)
  from Cons.prems obtain y ys where
    head: "member j = Inr y" and rest: "decode_members member js = Inr ys" and xs: "xs = y # ys"
    by (auto split: sum.splits)
  from Cons.IH [OF rest] head xs show ?case by auto
qed

lemma ApiList_envelope:
  "map_of attrs ''items'' = Some (JArr js) \<Longrightarrow>
   ApiList_from_json_dict member_cls (JObj attrs) rr = decode_members (\<lambda>x. member_cls x rr) js"
  by (simp add: ApiList_from_json_dict_def LIST_KEY_def)

lemma decoded_names_requested:
  assumes "decode_members (\<lambda>x. ApiRole x rr) js = Inr roles"
  shows "(set (map nm roles) \<subseteq> set role_names) =
         (\<forall>j\<in>set js. \<forall>r. ApiRole j rr = Inr r \<longrightarrow> nm r \<in> set role_names)"
  using decode_members_set [OF assms] by auto

lemma role_json_decoded:
  "fixture_role (role_json n) rr = Inr (Role n ''DATANODE'' ''host-1'')"
  by (simp add: fixture_role_def role_json_def)

text \<open>
  C2 as stated fails: the client does not compare the answer with the request. When the
  transport's answer lists a role that was not requested, both operations return it,
  and the result is not a subset of the requested names.
\<close>

theorem role_moves_subset_counterexample:
  "fst (move_roles fixture_dumps fixture_role (fake_transport stray_role_response)
          ''hdfs'' ''dn-1'' [''r1''] (Some ''c1'') 0) =
     Inr [Role ''r9'' ''DATANODE'' ''host-1'']
   \<and> fst (move_roles_to_base_role_config_group fixture_dumps fixture_role
          (fake_transport stray_role_response) ''hdfs'' [''r1''] (Some ''c1'') 0) =
       Inr [Role ''r9'' ''DATANODE'' ''host-1'']
   \<and> \<not> set (map role_name [Role ''r9'' ''DATANODE'' ''host-1'']) \<subseteq> set [''r1'']"
  by (simp add: move_roles_def move_roles_to_base_role_config_group_def Let_def
      group_path_value groups_path_value truthy_def fake_transport_calls
      stray_role_response_def ApiList_from_json_dict_def LIST_KEY_def role_json_decoded)

text \<open>
  C2, amended. For every list of requested role names, and for each of the two
  operations on its own: when the transport answers the operation's PUT with an
  envelope whose items all decode, the operation returns exactly the roles decoded from
  the answer, in order and as many as the answer lists, and raises no error; the names
  of the returned roles are a subset of the requested names if and only if every item
  of the answer decodes to a requested role. So an answer that lists fewer roles than
  requested is returned as it is. An error of the transport is returned unchanged.
\<close>

theorem role_moves_return_response_items:
  "(\<forall>p attrs js roles s1.
      priv_get_role_config_group_path cluster_name service_name group_name = Inr p \<and>
      put rr (p @ ''/roles'') (Some (dumps (role_names_dict role_names))) s =
        (Inr (JObj attrs), s1) \<and>
      map_of attrs ''items'' = Some (JArr js) \<and>
      decode_members (\<lambda>x. ApiRole x rr) js = Inr roles \<longrightarrow>
        move_roles dumps ApiRole rr service_name group_name role_names cluster_name s =
          (Inr roles, s1)
        \<and> length roles = length js
        \<and> (set (map nm roles) \<subseteq> set role_names) =
            (\<forall>j\<in>set js. \<forall>r. ApiRole j rr = Inr r \<longrightarrow> nm r \<in> set role_names))
   \<and> (\<forall>q attrs js roles s2.
      priv_get_role_config_groups_path cluster_name service_name = Inr q \<and>
      put rr (q @ ''/roles'') (Some (dumps (role_names_dict role_names))) s =
        (Inr (JObj attrs), s2) \<and>
      map_of attrs ''items'' = Some (JArr js) \<and>
      decode_members (\<lambda>x. ApiRole x rr) js = Inr roles \<longrightarrow>
        move_roles_to_base_role_config_group dumps ApiRole rr service_name role_names
          cluster_name s = (Inr roles, s2)
        \<and> length roles = length js
        \<and> (set (map nm roles) \<subseteq> set role_names) =
            (\<forall>j\<in>set js. \<forall>r. ApiRole j rr = Inr r \<longrightarrow> nm r \<in> set role_names))
   \<and> (\<forall>p e s1.
      priv_get_role_config_group_path cluster_name service_name group_name = Inr p \<and>
      put rr (p @ ''/roles'') (Some (dumps (role_names_dict role_names))) s = (Inl e, s1) \<longrightarrow>
        move_roles dumps ApiRole rr service_name group_name role_names cluster_name s =
          (Inl e, s1))
   \<and> (\<forall>q e s2.
      priv_get_role_config_groups_path cluster_name service_name = Inr q \<and>
      put rr (q @ ''/roles'') (Some (dumps (role_names_dict role_names))) s = (Inl e, s2) \<longrightarrow>
        move_roles_to_base_role_config_group dumps ApiRole rr service_name role_names
          cluster_name s = (Inl e, s2))"
proof (intro conjI allI impI)
  fix p attrs js roles s1
  assume h: "priv_get_role_config_group_path cluster_name service_name group_name = Inr p \<and>
      put rr (p @ ''/roles'') (Some (dumps (role_names_dict role_names))) s =
        (Inr (JObj attrs), s1) \<and>
      map_of attrs ''items'' = Some (JArr js) \<and>
      decode_members (\<lambda>x. ApiRole x rr) js = Inr roles"
  then have items: "map_of attrs ''items'' = Some (JArr js)"
    and decoded: "decode_members (\<lambda>x. ApiRole x rr) js = Inr roles"
    by simp_all
  show "move_roles dumps ApiRole rr service_name group_name role_names cluster_name s =
          (Inr roles, s1)"
    using h by (simp add: move_roles_def Let_def ApiList_envelope [OF items])
  show "length roles = length js"
    using decoded by (rule decode_members_length)
  show "(set (map nm roles) \<subseteq> set role_names) =
            (\<forall>j\<in>set js. \<forall>r. ApiRole j rr = Inr r \<longrightarrow> nm r \<in> set role_names)"
    using decoded by (rule decoded_names_requested)
next
  fix q attrs js roles s2
  assume h: "priv_get_role_config_groups_path cluster_name service_name = Inr q \<and>
      put rr (q @ ''/roles'') (Some (dumps (role_names_dict role_names))) s =
        (Inr (JObj attrs), s2) \<and>
      map_of attrs ''items'' = Some (JArr js) \<and>
      decode_members (\<lambda>x. ApiRole x rr) js = Inr roles"
  then have items: "map_of attrs ''items'' = Some (JArr js)"
    and decoded: "decode_members (\<lambda>x. ApiRole x rr) js = Inr roles"
    by simp_all
  show "move_roles_to_base_role_config_group dumps ApiRole rr service_name role_names
          cluster_name s = (Inr roles, s2)"
    using h
    by (simp add: move_roles_to_base_role_config_group_def Let_def ApiList_envelope [OF items])
  show "length roles = length js"
    using decoded by (rule decode_members_length)
  show "(set (map nm roles) \<subseteq> set role_names) =
            (\<forall>j\<in>set js. \<forall>r. ApiRole j rr = Inr r \<longrightarrow> nm r \<in> set role_names)"
    using decoded by (rule decoded_names_requested)
next
  fix p e s1
  assume "priv_get_role_config_group_path cluster_name service_name group_name = Inr p \<and>
      put rr (p @ ''/roles'') (Some (dumps (role_names_dict role_names))) s = (Inl e, s1)"
  then show "move_roles dumps ApiRole rr service_name group_name role_names cluster_name s =
          (Inl e, s1)"
    by (simp add: move_roles_def Let_def)
next
  fix q e s2
  assume "priv_get_role_config_groups_path cluster_name service_name = Inr q \<and>
      put rr (q @ ''/roles'') (Some (dumps (role_names_dict role_names))) s = (Inl e, s2)"
  then show "move_roles_to_base_role_config_group dumps ApiRole rr service_name role_names
          cluster_name s = (Inl e, s2)"
    by (simp add: move_roles_to_base_role_config_group_def Let_def)
qed

theorem role_moves_return_response_items_witness:
  "move_roles fixture_dumps fixture_role (fake_transport one_role_response)
       ''hdfs'' ''dn-1'' [''r1'', ''r2''] (Some ''c1'') 0 =
     (Inr [Role ''r1'' ''DATANODE'' ''host-1''], 1)
   \<and> move_roles_to_base_role_config_group fixture_dumps fixture_role
       (fake_transport one_role_response) ''hdfs'' [''r1'', ''r2''] (Some ''c1'') 0 =
     (Inr [Role ''r1'' ''DATANODE'' ''host-1''], 1)
   \<and> length [Role ''r1'' ''DATANODE'' ''host-1''] = length [role_json ''r1'']
   \<and> set (map role_name [Role ''r1'' ''DATANODE'' ''host-1'']) \<subseteq> set [''r1'', ''r2'']
   \<and> move_roles fixture_dumps fixture_role (failing_transport (Raised ''503''))
       ''hdfs'' ''dn-1'' [''r1'', ''r2''] (Some ''c1'') 0 = (Inl (Raised ''503''), 1)
   \<and> move_roles_to_base_role_config_group fixture_dumps fixture_role
       (failing_transport (Raised ''503'')) ''hdfs'' [''r1'', ''r2''] (Some ''c1'') 0 =
     (Inl (Raised ''503''), 1)"
proof -
  let ?rr = "fake_transport one_role_response"
  let ?bad = "failing_transport (Raised ''503'')"
  let ?body = "Some (fixture_dumps (role_names_dict [''r1'', ''r2'']))"
  let ?roles = "[Role ''r1'' ''DATANODE'' ''host-1'']"
  have decoded: "decode_members (\<lambda>x. fixture_role x ?rr) [role_json ''r1''] = Inr ?roles"
    by (simp add: role_json_decoded)
  have single: "priv_get_role_config_group_path (Some ''c1'') ''hdfs'' ''dn-1'' =
        Inr ''/clusters/c1/services/hdfs/roleConfigGroups/dn-1'' \<and>
      put ?rr (''/clusters/c1/services/hdfs/roleConfigGroups/dn-1'' @ ''/roles'') ?body 0 =
        (Inr (JObj [(''items'', JArr [role_json ''r1''])]), 1) \<and>
      map_of [(''items'', JArr [role_json ''r1''])] ''items'' = Some (JArr [role_json ''r1'']) \<and>
      decode_members (\<lambda>x. fixture_role x ?rr) [role_json ''r1''] = Inr ?roles"
    using decoded
    by (simp add: group_path_value truthy_def fake_transport_calls one_role_response_def)
  have base: "priv_get_role_config_groups_path (Some ''c1'') ''hdfs'' =
        Inr ''/clusters/c1/services/hdfs/roleConfigGroups'' \<and>
      put ?rr (''/clusters/c1/services/hdfs/roleConfigGroups'' @ ''/roles'') ?body 0 =
        (Inr (JObj [(''items'', JArr [role_json ''r1''])]), 1) \<and>
      map_of [(''items'', JArr [role_json ''r1''])] ''items'' = Some (JArr [role_json ''r1'']) \<and>
      decode_members (\<lambda>x. fixture_role x ?rr) [role_json ''r1''] = Inr ?roles"
    using decoded
    by (simp add: groups_path_value truthy_def fake_transport_calls one_role_response_def)
  have single_fails: "priv_get_role_config_group_path (Some ''c1'') ''hdfs'' ''dn-1'' =
        Inr ''/clusters/c1/services/hdfs/roleConfigGroups/dn-1'' \<and>
      put ?bad (''/clusters/c1/services/hdfs/roleConfigGroups/dn-1'' @ ''/roles'') ?body 0 =
        (Inl (Raised ''503''), 1)"
    by (simp add: group_path_value truthy_def failing_transport_calls)
  have base_fails: "priv_get_role_config_groups_path (Some ''c1'') ''hdfs'' =
        Inr ''/clusters/c1/services/hdfs/roleConfigGroups'' \<and>
      put ?bad (''/clusters/c1/services/hdfs/roleConfigGroups'' @ ''/roles'') ?body 0 =
        (Inl (Raised ''503''), 1)"
    by (simp add: groups_path_value truthy_def failing_transport_calls)
  note answered = role_moves_return_response_items [where rr = ?rr and dumps = fixture_dumps
      and ApiRole = fixture_role and nm = role_name and role_names = "[''r1'', ''r2'']"
      and cluster_name = "Some ''c1''" and service_name = "''hdfs''" and group_name = "''dn-1''"
      and s = 0]
  note failed = role_moves_return_response_items [where rr = ?bad and dumps = fixture_dumps
      and ApiRole = fixture_role and nm = role_name and role_names = "[''r1'', ''r2'']"
      and cluster_name = "Some ''c1''" and service_name = "''hdfs''" and group_name = "''dn-1''"
      and s = 0]
  from answered [THEN conjunct1, rule_format, OF single]
    answered [THEN conjunct2, THEN conjunct1, rule_format, OF base]
    failed [THEN conjunct2, THEN conjunct2, THEN conjunct1, rule_format, OF single_fails]
    failed [THEN conjunct2, THEN conjunct2, THEN conjunct2, rule_format, OF base_fails]
  show ?thesis by simp
qed

subsection \<open>Decoding a configuration\<close>

lemma ran_upd_cases: "v \<in> ran (m(k \<mapsto> x)) \<Longrightarrow> v = x \<or> v \<in> ran m"
  by (auto simp add: ran_def split: if_splits)

lemma config_items_summary:
  "config_items False entries acc = Inr m \<Longrightarrow>
   \<forall>v\<in>ran m. v \<in> ran acc \<or> (\<exists>attrs. JObj attrs \<in> set entries \<and> v = Value (item_value attrs))"
proof (induction entries arbitrary: acc)
  case Nil
  then show ?case by simp
next
  case (Cons entry rest)
  from Cons.prems obtain attrs k where
    entry: "entry = JObj attrs"
    and step: "config_items False rest (acc(k \<mapsto> Value (item_value attrs))) = Inr m"
    by (auto split: json.splits option.splits sum.splits)
  show ?case
  proof
    fix v
    assume "v \<in> ran m"
    with Cons.IH [OF step]
    have "v \<in> ran (acc(k \<mapsto> Value (item_value attrs))) \<or>
          (\<exists>a. JObj a \<in> set rest \<and> v = Value (item_value a))"
      by blast
    then show "v \<in> ran acc \<or>
          (\<exists>a. JObj a \<in> set (entry # rest) \<and> v = Value (item_value a))"
      using entry by (auto dest: ran_upd_cases)
  qed
qed

lemma config_items_full:
  "config_items True entries acc = Inr m \<Longrightarrow>
   \<forall>v\<in>ran m. v \<in> ran acc \<or> (\<exists>attrs. JObj attrs \<in> set entries \<and> v = ApiConfig attrs)"
proof (induction entries arbitrary: acc)
  case Nil
  then show ?case by simp
next
  case (Cons entry rest)
  from Cons.prems obtain attrs k where
    entry: "entry = JObj attrs"
    and step: "config_items True rest (acc(k \<mapsto> ApiConfig attrs)) = Inr m"
    by (auto split: json.splits option.splits sum.splits)
  show ?case
  proof
    fix v
    assume "v \<in> ran m"
    with Cons.IH [OF step]
    have "v \<in> ran (acc(k \<mapsto> ApiConfig attrs)) \<or>
          (\<exists>a. JObj a \<in> set rest \<and> v = ApiConfig a)"
      by blast
    then show "v \<in> ran acc \<or> (\<exists>a. JObj a \<in> set (entry # rest) \<and> v = ApiConfig a)"
      using entry by (auto dest: ran_upd_cases)
  qed
qed

lemma json_to_config_summary:
  assumes "json_to_config resp False = Inr m"
  shows "\<forall>v\<in>ran m. \<exists>attrs. JObj attrs \<in> set (response_entries resp) \<and>
           v = Value (item_value attrs)"
proof -
  from assms obtain entries where
    entries: "response_entries resp = entries"
    and items: "config_items False entries Map.empty = Inr m"
    by (auto simp add: json_to_config_def response_entries_def
        split: json.splits option.splits sum.splits)
  from config_items_summary [OF items] entries show ?thesis by simp
qed

lemma json_to_config_full:
  assumes "json_to_config resp True = Inr m"
  shows "\<forall>v\<in>ran m. \<exists>attrs. JObj attrs \<in> set (response_entries resp) \<and> v = ApiConfig attrs"
proof -
  from assms obtain entries where
    entries: "response_entries resp = entries"
    and items: "config_items True entries Map.empty = Inr m"
    by (auto simp add: json_to_config_def response_entries_def
        split: json.splits option.splits sum.splits)
  from config_items_full [OF items] entries show ?thesis by simp
qed

lemma json_to_config_summary_strings:
  assumes "json_to_config resp False = Inr m"
    and "\<forall>e\<in>set (response_entries resp). has_string_value e"
  shows "\<forall>v\<in>ran m. is_string_value v"
proof
  fix v
  assume "v \<in> ran m"
  with json_to_config_summary [OF assms(1)] obtain attrs where
    "JObj attrs \<in> set (response_entries resp)" and v: "v = Value (item_value attrs)"
    by blast
  with assms(2) have "has_string_value (JObj attrs)" by blast
  with v show "is_string_value v"
    by (auto simp add: has_string_value_def is_string_value_def split: json.splits)
qed

lemma json_to_config_summary_kind:
  "json_to_config resp False = Inr m \<Longrightarrow> \<forall>v\<in>ran m. is_Value v"
  by (auto dest!: json_to_config_summary)

lemma json_to_config_full_kind:
  "json_to_config resp True = Inr m \<Longrightarrow> \<forall>v\<in>ran m. is_ApiConfig v"
  by (auto dest!: json_to_config_full)

lemma get_config_unfolded:
  assumes "serviceRef self = Some ref"
    and "priv_get_resource_root self = recording rr"
    and "priv_get_role_config_group_path (clusterName ref) (serviceName ref) (name self) = Inr p"
  shows "get_config self view (s, log) =
     (case fst (get rr (p @ ''/config'') (view_params view) s) of
        Inl e \<Rightarrow> Inl e
      | Inr resp \<Rightarrow> json_to_config resp (view = Some ''full''),
      (snd (get rr (p @ ''/config'') (view_params view) s),
       log @ [Get (p @ ''/config'') (view_params view)]))"
  using assms
  by (simp add: get_config_def priv_path_def Let_def recording_get split: sum.splits)

lemma view_params_values:
  "view_params None = None"
  "view_params (Some []) = None"
  "v \<noteq> [] \<Longrightarrow> view_params (Some v) = Some [(''view'', v)]"
  by (simp_all add: view_params_def truthy_def)

lemma datanode_group_fields:
  "serviceRef (datanode_group root) = Some \<lparr> clusterName = Some ''c1'', serviceName = ''hdfs'' \<rparr>"
  "priv_get_resource_root (datanode_group root) = root"
  "name (datanode_group root) = ''dn-1''"
  by (simp_all add: datanode_group_def)

lemma datanode_group_path:
  "priv_get_role_config_group_path (Some ''c1'') ''hdfs'' ''dn-1'' =
     Inr ''/clusters/c1/services/hdfs/roleConfigGroups/dn-1''"
  by (simp add: group_path_value truthy_def)

lemma config_response_decoded:
  "json_to_config config_response False = Inr [JStr ''k'' \<mapsto> Value (JStr ''v'')]"
  "json_to_config config_response True =
     Inr [JStr ''k'' \<mapsto> ApiConfig [(''name'', JStr ''k''), (''value'', JStr ''v'')]]"
  "response_entries config_response = [JObj [(''name'', JStr ''k''), (''value'', JStr ''v'')]]"
  by (simp_all add: json_to_config_def response_entries_def config_response_def LIST_KEY_def
      py_iter_def dict_key_def item_value_def)

lemma other_config_responses_decoded:
  "json_to_config valueless_config_response False = Inr [JStr ''k'' \<mapsto> Value JNull]"
  "json_to_config numeric_config_response False = Inr [JStr ''k'' \<mapsto> Value (JNum 5)]"
  by (simp_all add: json_to_config_def valueless_config_response_def
      numeric_config_response_def LIST_KEY_def py_iter_def dict_key_def item_value_def)

subsection \<open>Reading the configuration of a group\<close>

text \<open>
  C4 as stated fails in its last part: in the summary view the values are not always
  plain strings. An item of the response that has no value is decoded to \<^verbatim>\<open>None\<close>.
\<close>

theorem get_config_summary_not_string_counterexample:
  "get_config (datanode_group (fake_transport valueless_config_response)) (Some ''summary'') 0 =
     (Inr [JStr ''k'' \<mapsto> Value JNull], 1)
   \<and> \<not> is_string_value (Value JNull)"
  by (simp add: get_config_def priv_path_def Let_def datanode_group_fields datanode_group_path
      fake_transport_calls other_config_responses_decoded is_string_value_def)

text \<open>
  C4, amended. For a group that carries its \<^verbatim>\<open>serviceRef\<close>, \<^verbatim>\<open>get_config(view)\<close> issues
  one GET on the singleton path of the group with \<^verbatim>\<open>/config\<close> appended. With the view
  \<^verbatim>\<open>summary\<close> or \<^verbatim>\<open>full\<close> the request carries the query parameter \<^verbatim>\<open>view\<close> with that
  value; with no view it carries no query parameters. An error of the transport is
  returned unchanged; otherwise the result is the response decoded by
  \<^verbatim>\<open>json_to_config\<close>, in the full mode for \<^verbatim>\<open>full\<close> only. With the view \<^verbatim>\<open>summary\<close> or no
  view, each value of the result is the value of an item of the response as the
  response carries it (\<^verbatim>\<open>None\<close> when the item has none), so the values are plain strings
  when every item of the response has a string value; with the view \<^verbatim>\<open>full\<close>, each
  value is a config object made from an item of the response.
\<close>

theorem get_config_request_and_views:
  assumes ref: "serviceRef self = Some ref"
    and root: "priv_get_resource_root self = recording rr"
  shows "\<exists>p. priv_get_role_config_group_path (clusterName ref) (serviceName ref) (name self) =
              Inr p
     \<and> get_config self None (s, log) =
         (case fst (get rr (p @ ''/config'') None s) of
            Inl e \<Rightarrow> Inl e
          | Inr resp \<Rightarrow> json_to_config resp False,
          (snd (get rr (p @ ''/config'') None s), log @ [Get (p @ ''/config'') None]))
     \<and> get_config self (Some ''summary'') (s, log) =
         (case fst (get rr (p @ ''/config'') (Some [(''view'', ''summary'')]) s) of
            Inl e \<Rightarrow> Inl e
          | Inr resp \<Rightarrow> json_to_config resp False,
          (snd (get rr (p @ ''/config'') (Some [(''view'', ''summary'')]) s),
           log @ [Get (p @ ''/config'') (Some [(''view'', ''summary'')])]))
     \<and> get_config self (Some ''full'') (s, log) =
         (case fst (get rr (p @ ''/config'') (Some [(''view'', ''full'')]) s) of
            Inl e \<Rightarrow> Inl e
          | Inr resp \<Rightarrow> json_to_config resp True,
          (snd (get rr (p @ ''/config'') (Some [(''view'', ''full'')]) s),
           log @ [Get (p @ ''/config'') (Some [(''view'', ''full'')])]))
     \<and> (\<forall>view resp m.
           (view = None \<or> view = Some ''summary'') \<and>
           fst (get rr (p @ ''/config'') (view_params view) s) = Inr resp \<and>
           fst (get_config self view (s, log)) = Inr m \<longrightarrow>
             (\<forall>v\<in>ran m. \<exists>attrs. JObj attrs \<in> set (response_entries resp) \<and>
                            v = Value (item_value attrs))
             \<and> ((\<forall>e\<in>set (response_entries resp). has_string_value e) \<longrightarrow>
                  (\<forall>v\<in>ran m. is_string_value v)))
     \<and> (\<forall>resp m.
           fst (get rr (p @ ''/config'') (Some [(''view'', ''full'')]) s) = Inr resp \<and>
           fst (get_config self (Some ''full'') (s, log)) = Inr m \<longrightarrow>
             (\<forall>v\<in>ran m. \<exists>attrs. JObj attrs \<in> set (response_entries resp) \<and>
                            v = ApiConfig attrs))"
proof -
  obtain p where
    p: "priv_get_role_config_group_path (clusterName ref) (serviceName ref) (name self) = Inr p"
    by (simp add: group_path_value)
  note unfolded = get_config_unfolded [OF ref root p]
  have none: "get_config self None (s, log) =
         (case fst (get rr (p @ ''/config'') None s) of
            Inl e \<Rightarrow> Inl e
          | Inr resp \<Rightarrow> json_to_config resp False,
          (snd (get rr (p @ ''/config'') None s), log @ [Get (p @ ''/config'') None]))"
    by (simp add: unfolded view_params_values cong: sum.case_cong)
  have summary: "get_config self (Some ''summary'') (s, log) =
         (case fst (get rr (p @ ''/config'') (Some [(''view'', ''summary'')]) s) of
            Inl e \<Rightarrow> Inl e
          | Inr resp \<Rightarrow> json_to_config resp False,
          (snd (get rr (p @ ''/config'') (Some [(''view'', ''summary'')]) s),
           log @ [Get (p @ ''/config'') (Some [(''view'', ''summary'')])]))"
    by (simp add: unfolded view_params_values cong: sum.case_cong)
  have full: "get_config self (Some ''full'') (s, log) =
         (case fst (get rr (p @ ''/config'') (Some [(''view'', ''full'')]) s) of
            Inl e \<Rightarrow> Inl e
          | Inr resp \<Rightarrow> json_to_config resp True,
          (snd (get rr (p @ ''/config'') (Some [(''view'', ''full'')]) s),
           log @ [Get (p @ ''/config'') (Some [(''view'', ''full'')])]))"
    by (simp add: unfolded view_params_values cong: sum.case_cong)
  have plain: "\<forall>view resp m.
           (view = None \<or> view = Some ''summary'') \<and>
           fst (get rr (p @ ''/config'') (view_params view) s) = Inr resp \<and>
           fst (get_config self view (s, log)) = Inr m \<longrightarrow>
             (\<forall>v\<in>ran m. \<exists>attrs. JObj attrs \<in> set (response_entries resp) \<and>
                            v = Value (item_value attrs))
             \<and> ((\<forall>e\<in>set (response_entries resp). has_string_value e) \<longrightarrow>
                  (\<forall>v\<in>ran m. is_string_value v))"
  proof (intro allI impI)
    fix view resp m
    assume h: "(view = None \<or> view = Some ''summary'') \<and>
           fst (get rr (p @ ''/config'') (view_params view) s) = Inr resp \<and>
           fst (get_config self view (s, log)) = Inr m"
    then have "json_to_config resp False = Inr m"
      by (auto simp add: unfolded)
    then show "(\<forall>v\<in>ran m. \<exists>attrs. JObj attrs \<in> set (response_entries resp) \<and>
                            v = Value (item_value attrs))
             \<and> ((\<forall>e\<in>set (response_entries resp). has_string_value e) \<longrightarrow>
                  (\<forall>v\<in>ran m. is_string_value v))"
      using json_to_config_summary json_to_config_summary_strings by blast
  qed
  have rich: "\<forall>resp m.
           fst (get rr (p @ ''/config'') (Some [(''view'', ''full'')]) s) = Inr resp \<and>
           fst (get_config self (Some ''full'') (s, log)) = Inr m \<longrightarrow>
             (\<forall>v\<in>ran m. \<exists>attrs. JObj attrs \<in> set (response_entries resp) \<and>
                            v = ApiConfig attrs)"
  proof (intro allI impI)
    fix resp m
    assume "fst (get rr (p @ ''/config'') (Some [(''view'', ''full'')]) s) = Inr resp \<and>
           fst (get_config self (Some ''full'') (s, log)) = Inr m"
    then have "json_to_config resp True = Inr m"
      by (auto simp add: full)
    then show "\<forall>v\<in>ran m. \<exists>attrs. JObj attrs \<in> set (response_entries resp) \<and>
                            v = ApiConfig attrs"
      by (rule json_to_config_full)
  qed
  from p none summary full plain rich show ?thesis by blast
qed

theorem get_config_request_and_views_witness:
  "serviceRef (datanode_group (recording (fake_transport config_response))) =
     Some \<lparr> clusterName = Some ''c1'', serviceName = ''hdfs'' \<rparr>
   \<and> priv_get_resource_root (datanode_group (recording (fake_transport config_response))) =
       recording (fake_transport config_response)
   \<and> get_config (datanode_group (recording (fake_transport config_response))) None (0, []) =
       (Inr [JStr ''k'' \<mapsto> Value (JStr ''v'')],
        (1, [Get ''/clusters/c1/services/hdfs/roleConfigGroups/dn-1/config'' None]))
   \<and> get_config (datanode_group (recording (fake_transport config_response)))
         (Some ''summary'') (0, []) =
       (Inr [JStr ''k'' \<mapsto> Value (JStr ''v'')],
        (1, [Get ''/clusters/c1/services/hdfs/roleConfigGroups/dn-1/config''
               (Some [(''view'', ''summary'')])]))
   \<and> get_config (datanode_group (recording (fake_transport config_response)))
         (Some ''full'') (0, []) =
       (Inr [JStr ''k'' \<mapsto> ApiConfig [(''name'', JStr ''k''), (''value'', JStr ''v'')]],
        (1, [Get ''/clusters/c1/services/hdfs/roleConfigGroups/dn-1/config''
               (Some [(''view'', ''full'')])]))
   \<and> response_entries config_response = [JObj [(''name'', JStr ''k''), (''value'', JStr ''v'')]]
   \<and> has_string_value (JObj [(''name'', JStr ''k''), (''value'', JStr ''v'')])
   \<and> Value (JStr ''v'') = Value (item_value [(''name'', JStr ''k''), (''value'', JStr ''v'')])
   \<and> is_string_value (Value (JStr ''v''))
   \<and> get_config (datanode_group (recording (failing_transport (Raised ''503''))))
         (Some ''full'') (0, []) =
       (Inl (Raised ''503''),
        (1, [Get ''/clusters/c1/services/hdfs/roleConfigGroups/dn-1/config''
               (Some [(''view'', ''full'')])]))"
proof -
  have ref: "serviceRef (datanode_group (recording (fake_transport config_response))) =
     Some \<lparr> clusterName = Some ''c1'', serviceName = ''hdfs'' \<rparr>"
    by (simp add: datanode_group_fields)
  have root: "priv_get_resource_root (datanode_group (recording (fake_transport config_response))) =
       recording (fake_transport config_response)"
    by (simp add: datanode_group_fields)
  have path: "priv_get_role_config_group_path
      (clusterName \<lparr> clusterName = Some ''c1'', serviceName = ''hdfs'' \<rparr>)
      (serviceName \<lparr> clusterName = Some ''c1'', serviceName = ''hdfs'' \<rparr>)
      (name (datanode_group (recording (fake_transport config_response)))) =
      Inr ''/clusters/c1/services/hdfs/roleConfigGroups/dn-1''"
    by (simp add: datanode_group_fields datanode_group_path)
  have ref': "serviceRef (datanode_group (recording (failing_transport (Raised ''503'')))) =
     Some \<lparr> clusterName = Some ''c1'', serviceName = ''hdfs'' \<rparr>"
    by (simp add: datanode_group_fields)
  have root': "priv_get_resource_root
       (datanode_group (recording (failing_transport (Raised ''503'')))) =
       recording (failing_transport (Raised ''503''))"
    by (simp add: datanode_group_fields)
  have path': "priv_get_role_config_group_path
      (clusterName \<lparr> clusterName = Some ''c1'', serviceName = ''hdfs'' \<rparr>)
      (serviceName \<lparr> clusterName = Some ''c1'', serviceName = ''hdfs'' \<rparr>)
      (name (datanode_group (recording (failing_transport (Raised ''503''))))) =
      Inr ''/clusters/c1/services/hdfs/roleConfigGroups/dn-1''"
    by (simp add: datanode_group_fields datanode_group_path)
  show ?thesis
    using get_config_request_and_views [OF ref root, of 0 "[]"]
      get_config_request_and_views [OF ref' root', of 0 "[]"]
    by (simp add: get_config_unfolded [OF ref root path] get_config_unfolded [OF ref' root' path']
        ref root view_params_values fake_transport_calls failing_transport_calls
        config_response_decoded has_string_value_def item_value_def is_string_value_def)
qed

text \<open>
  C9. For a group that carries its \<^verbatim>\<open>serviceRef\<close>: a falsy view (\<^verbatim>\<open>None\<close> or the empty
  string) sends no query parameters; every other view is forwarded as the query
  parameter \<^verbatim>\<open>view\<close>, whether or not it is one of the documented values; the response
  is decoded with the full flag set exactly when the view is the string \<^verbatim>\<open>full\<close>, so
  every other view gives summary values and \<^verbatim>\<open>full\<close> gives config objects.
\<close>

theorem get_config_view_truthiness:
  assumes ref: "serviceRef self = Some ref"
    and root: "priv_get_resource_root self = recording rr"
  shows "\<exists>p. priv_get_role_config_group_path (clusterName ref) (serviceName ref) (name self) =
              Inr p
     \<and> (view = None \<or> view = Some [] \<longrightarrow>
          snd (snd (get_config self view (s, log))) = log @ [Get (p @ ''/config'') None])
     \<and> (\<forall>v. view = Some v \<and> v \<noteq> [] \<longrightarrow>
          snd (snd (get_config self view (s, log))) =
            log @ [Get (p @ ''/config'') (Some [(''view'', v)])])
     \<and> fst (get_config self view (s, log)) =
         (case fst (get rr (p @ ''/config'') (view_params view) s) of
            Inl e \<Rightarrow> Inl e
          | Inr resp \<Rightarrow> json_to_config resp (view = Some ''full''))
     \<and> (view \<noteq> Some ''full'' \<longrightarrow>
          (\<forall>m. fst (get_config self view (s, log)) = Inr m \<longrightarrow> (\<forall>v\<in>ran m. is_Value v)))
     \<and> (view = Some ''full'' \<longrightarrow>
          (\<forall>m. fst (get_config self view (s, log)) = Inr m \<longrightarrow> (\<forall>v\<in>ran m. is_ApiConfig v)))"
proof -
  obtain p where
    p: "priv_get_role_config_group_path (clusterName ref) (serviceName ref) (name self) = Inr p"
    by (simp add: group_path_value)
  note unfolded = get_config_unfolded [OF ref root p]
  have "view = None \<or> view = Some [] \<longrightarrow>
          snd (snd (get_config self view (s, log))) = log @ [Get (p @ ''/config'') None]"
    by (auto simp add: unfolded view_params_values)
  moreover have "\<forall>v. view = Some v \<and> v \<noteq> [] \<longrightarrow>
          snd (snd (get_config self view (s, log))) =
            log @ [Get (p @ ''/config'') (Some [(''view'', v)])]"
    by (auto simp add: unfolded view_params_values)
  moreover have "fst (get_config self view (s, log)) =
         (case fst (get rr (p @ ''/config'') (view_params view) s) of
            Inl e \<Rightarrow> Inl e
          | Inr resp \<Rightarrow> json_to_config resp (view = Some ''full''))"
    by (simp add: unfolded)
  moreover have "view \<noteq> Some ''full'' \<longrightarrow>
          (\<forall>m. fst (get_config self view (s, log)) = Inr m \<longrightarrow> (\<forall>v\<in>ran m. is_Value v))"
    by (auto simp add: unfolded split: sum.splits dest!: json_to_config_summary_kind)
  moreover have "view = Some ''full'' \<longrightarrow>
          (\<forall>m. fst (get_config self view (s, log)) = Inr m \<longrightarrow> (\<forall>v\<in>ran m. is_ApiConfig v))"
    by (auto simp add: unfolded split: sum.splits dest!: json_to_config_full_kind)
  ultimately show ?thesis using p by blast
qed

theorem get_config_view_truthiness_witness:
  "serviceRef (datanode_group (recording (fake_transport config_response))) =
     Some \<lparr> clusterName = Some ''c1'', serviceName = ''hdfs'' \<rparr>
   \<and> priv_get_resource_root (datanode_group (recording (fake_transport config_response))) =
       recording (fake_transport config_response)
   \<and> get_config (datanode_group (recording (fake_transport config_response)))
         (Some []) (0, []) =
       (Inr [JStr ''k'' \<mapsto> Value (JStr ''v'')],
        (1, [Get ''/clusters/c1/services/hdfs/roleConfigGroups/dn-1/config'' None]))
   \<and> ''detailed'' \<noteq> []
   \<and> Some ''detailed'' \<noteq> Some ''full''
   \<and> get_config (datanode_group (recording (fake_transport config_response)))
         (Some ''detailed'') (0, []) =
       (Inr [JStr ''k'' \<mapsto> Value (JStr ''v'')],
        (1, [Get ''/clusters/c1/services/hdfs/roleConfigGroups/dn-1/config''
               (Some [(''view'', ''detailed'')])]))
   \<and> is_Value (Value (JStr ''v''))"
proof -
  have ref: "serviceRef (datanode_group (recording (fake_transport config_response))) =
     Some \<lparr> clusterName = Some ''c1'', serviceName = ''hdfs'' \<rparr>"
    by (simp add: datanode_group_fields)
  have root: "priv_get_resource_root (datanode_group (recording (fake_transport config_response))) =
       recording (fake_transport config_response)"
    by (simp add: datanode_group_fields)
  have path: "priv_get_role_config_group_path
      (clusterName \<lparr> clusterName = Some ''c1'', serviceName = ''hdfs'' \<rparr>)
      (serviceName \<lparr> clusterName = Some ''c1'', serviceName = ''hdfs'' \<rparr>)
      (name (datanode_group (recording (fake_transport config_response)))) =
      Inr ''/clusters/c1/services/hdfs/roleConfigGroups/dn-1''"
    by (simp add: datanode_group_fields datanode_group_path)
  show ?thesis
    using get_config_view_truthiness [OF ref root, of "Some []" 0 "[]"]
      get_config_view_truthiness [OF ref root, of "Some ''detailed''" 0 "[]"]
    by (simp add: get_config_unfolded [OF ref root path] ref root view_params_values
        fake_transport_calls config_response_decoded)
qed

subsection \<open>Updating the configuration of a group\<close>

text \<open>
  C10 as stated fails: the returned values are not always plain strings. An item of
  the response whose value is a number is decoded to that number.
\<close>

theorem update_config_not_string_counterexample:
  "update_config fixture_config_to_json (datanode_group (fake_transport numeric_config_response))
     [(''k'', ''5'')] 0 =
     (Inr [JStr ''k'' \<mapsto> Value (JNum 5)], 1)
   \<and> \<not> is_string_value (Value (JNum 5))"
  by (simp add: update_config_def priv_path_def Let_def datanode_group_fields
      datanode_group_path fake_transport_calls other_config_responses_decoded
      is_string_value_def)

text \<open>
  C10, amended. \<^verbatim>\<open>update_config\<close> decodes the response of its PUT in summary mode, and
  an error of the transport is returned unchanged. Whatever the configuration sent and
  whatever the transport answers, each value of a returned mapping is the value of an
  item of the response as the response carries it (\<^verbatim>\<open>None\<close> when the item has none),
  never a config object; the values are plain strings when every item of the response
  has a string value.
\<close>

theorem update_config_decodes_summary:
  "(\<forall>ref. serviceRef self = Some ref \<longrightarrow>
      (\<exists>p. priv_get_role_config_group_path (clusterName ref) (serviceName ref) (name self) =
              Inr p
         \<and> update_config config_to_json self new_config s =
             (case fst (put (priv_get_resource_root self) (p @ ''/config'')
                          (Some (config_to_json new_config)) s) of
                Inl e \<Rightarrow> Inl e
              | Inr resp \<Rightarrow> json_to_config resp False,
              snd (put (priv_get_resource_root self) (p @ ''/config'')
                     (Some (config_to_json new_config)) s))
         \<and> (\<forall>resp m.
               fst (put (priv_get_resource_root self) (p @ ''/config'')
                      (Some (config_to_json new_config)) s) = Inr resp \<and>
               fst (update_config config_to_json self new_config s) = Inr m \<longrightarrow>
                 (\<forall>v\<in>ran m. \<exists>attrs. JObj attrs \<in> set (response_entries resp) \<and>
                                v = Value (item_value attrs))
                 \<and> ((\<forall>e\<in>set (response_entries resp). has_string_value e) \<longrightarrow>
                      (\<forall>v\<in>ran m. is_string_value v)))))
   \<and> (\<forall>m. fst (update_config config_to_json self new_config s) = Inr m \<longrightarrow>
          (\<forall>v\<in>ran m. is_Value v))"
proof (intro conjI allI impI)
  fix ref
  assume ref: "serviceRef self = Some ref"
  obtain p where
    p: "priv_get_role_config_group_path (clusterName ref) (serviceName ref) (name self) = Inr p"
    by (simp add: group_path_value)
  let ?answer = "put (priv_get_resource_root self) (p @ ''/config'')
                   (Some (config_to_json new_config)) s"
  have unfolded: "update_config config_to_json self new_config s =
             (case fst ?answer of
                Inl e \<Rightarrow> Inl e
              | Inr resp \<Rightarrow> json_to_config resp False,
              snd ?answer)"
    using ref p
    by (simp add: update_config_def priv_path_def Let_def split: sum.splits prod.splits)
  have shape: "\<forall>resp m.
               fst ?answer = Inr resp \<and>
               fst (update_config config_to_json self new_config s) = Inr m \<longrightarrow>
                 (\<forall>v\<in>ran m. \<exists>attrs. JObj attrs \<in> set (response_entries resp) \<and>
                                v = Value (item_value attrs))
                 \<and> ((\<forall>e\<in>set (response_entries resp). has_string_value e) \<longrightarrow>
                      (\<forall>v\<in>ran m. is_string_value v))"
  proof (intro allI impI)
    fix resp m
    assume "fst ?answer = Inr resp \<and>
               fst (update_config config_to_json self new_config s) = Inr m"
    then have "json_to_config resp False = Inr m"
      by (auto simp add: unfolded)
    then show "(\<forall>v\<in>ran m. \<exists>attrs. JObj attrs \<in> set (response_entries resp) \<and>
                                v = Value (item_value attrs))
                 \<and> ((\<forall>e\<in>set (response_entries resp). has_string_value e) \<longrightarrow>
                      (\<forall>v\<in>ran m. is_string_value v))"
      using json_to_config_summary json_to_config_summary_strings by blast
  qed
  from p unfolded shape
  show "\<exists>p. priv_get_role_config_group_path (clusterName ref) (serviceName ref) (name self) =
              Inr p
         \<and> update_config config_to_json self new_config s =
             (case fst (put (priv_get_resource_root self) (p @ ''/config'')
                          (Some (config_to_json new_config)) s) of
                Inl e \<Rightarrow> Inl e
              | Inr resp \<Rightarrow> json_to_config resp False,
              snd (put (priv_get_resource_root self) (p @ ''/config'')
                     (Some (config_to_json new_config)) s))
         \<and> (\<forall>resp m.
               fst (put (priv_get_resource_root self) (p @ ''/config'')
                      (Some (config_to_json new_config)) s) = Inr resp \<and>
               fst (update_config config_to_json self new_config s) = Inr m \<longrightarrow>
                 (\<forall>v\<in>ran m. \<exists>attrs. JObj attrs \<in> set (response_entries resp) \<and>
                                v = Value (item_value attrs))
                 \<and> ((\<forall>e\<in>set (response_entries resp). has_string_value e) \<longrightarrow>
                      (\<forall>v\<in>ran m. is_string_value v)))"
    by blast
next
  fix m
  assume "fst (update_config config_to_json self new_config s) = Inr m"
  then show "\<forall>v\<in>ran m. is_Value v"
    by (auto simp add: update_config_def Let_def split: sum.splits prod.splits
        dest!: json_to_config_summary_kind)
qed

theorem update_config_decodes_summary_witness:
  "serviceRef (datanode_group (fake_transport config_response)) =
     Some \<lparr> clusterName = Some ''c1'', serviceName = ''hdfs'' \<rparr>
   \<and> update_config fixture_config_to_json (datanode_group (fake_transport config_response))
        [(''k'', ''v'')] 0 = (Inr [JStr ''k'' \<mapsto> Value (JStr ''v'')], 1)
   \<and> response_entries config_response = [JObj [(''name'', JStr ''k''), (''value'', JStr ''v'')]]
   \<and> has_string_value (JObj [(''name'', JStr ''k''), (''value'', JStr ''v'')])
   \<and> is_string_value (Value (JStr ''v''))
   \<and> update_config fixture_config_to_json
        (datanode_group (failing_transport (Raised ''503''))) [(''k'', ''v'')] 0 =
       (Inl (Raised ''503''), 1)"
  using update_config_decodes_summary [of "datanode_group (fake_transport config_response)"
      fixture_config_to_json "[(''k'', ''v'')]" 0]
    update_config_decodes_summary [of "datanode_group (failing_transport (Raised ''503''))"
      fixture_config_to_json "[(''k'', ''v'')]" 0]
  by (simp add: update_config_def priv_path_def Let_def datanode_group_fields
      datanode_group_path fake_transport_calls failing_transport_calls
      config_response_decoded has_string_value_def item_value_def is_string_value_def)

end
